theory Spec2Isabelle
  imports Main "HOL-Library.Word" "HOL-Library.AList"
begin

section \<open>The network interface (pkg/tcpip/stack/nic.go)\<close>

text \<open>
  The interface object of the user-space TCP/IP stack: its address table of reference
  counted cells, the primary endpoint lists, the multicast join counts, the enable
  transition, source address selection and the receive path.

  The embedding is sequential: one call runs from start to end, the reader/writer lock is
  not modelled, and an atomic operation is a plain read or write. A pointer to a
  \<open>referencedNetworkEndpoint\<close> is an index into an explicit store of cells, so that two
  references to the same cell see each other's writes and "the same cell" is equality of
  indices.
\<close>

subsection \<open>Values\<close>

text \<open>\<open>tcpip.Address\<close> and \<open>tcpip.LinkAddress\<close> are Go strings, sequences of bytes.\<close>

type_synonym Address = string
type_synonym LinkAddress = string

text \<open>\<open>tcpip.NetworkProtocolNumber\<close> is a \<open>uint32\<close>; it is only compared.\<close>

type_synonym NetworkProtocolNumber = "32 word"

type_synonym ptr = nat

datatype tcpip_error =
    ErrDuplicateAddress
  | ErrUnknownProtocol
  | ErrBadLocalAddress
  | ErrBadAddress
  | ErrInvalidEndpointState
  | ErrNotSupported
  | ErrWouldBlock
  | ErrNoRoute

text \<open>A call that does not return: \<open>panic\<close> and \<open>log.Fatalf\<close>.\<close>

datatype abort = Panic string | Fatal string

datatype PrimaryEndpointBehavior =
    CanBePrimaryEndpoint
  | FirstPrimaryEndpoint
  | NeverPrimaryEndpoint

text \<open>
  \<open>getRefBehaviour\<close>. The source names the three values \<open>spoofing\<close>, \<open>promiscuous\<close>
  and \<open>forceSpoofing\<close>; the first two are also fields of the interface, so the values
  carry a suffix here.
\<close>

datatype getRefBehaviour = spoofingRef | promiscuousRef | forceSpoofingRef

datatype networkEndpointKind =
    permanentTentative
  | permanent
  | permanentExpired
  | temporary

datatype networkEndpointConfigType = static | slaac

record AddressWithPrefix =
  Address :: Address
  PrefixLen :: int

record ProtocolAddress =
  Protocol :: NetworkProtocolNumber
  AddressWithPrefix :: AddressWithPrefix

text \<open>
  Modelled from the spec: the \<open>NetworkEndpoint\<close> interface (its implementations are not
  under src/). The spec gives it \<open>ID() \<rightarrow> {LocalAddress}\<close>, \<open>PrefixLen()\<close>,
  \<open>HandlePacket\<close> and \<open>Close()\<close>; an endpoint is the address and prefix length it was
  made for, and a flag that records the call of \<open>Close\<close>.
\<close>

record NetworkEndpoint =
  LocalAddress :: Address
  epPrefixLen :: int
  closed :: bool

record referencedNetworkEndpoint =
  ep :: NetworkEndpoint
  protocol :: NetworkProtocolNumber
  linkCache :: bool
  refs :: "32 word"
  kind :: networkEndpointKind
  configType :: networkEndpointConfigType
  deprecated :: bool

text \<open>
  Modelled from the spec: \<open>tcpip.Subnet\<close> (package tcpip is not under src/). The
  interface only calls \<open>ID()\<close>, \<open>Broadcast()\<close> and \<open>Contains(address)\<close>, so a subnet is
  the three answers.
\<close>

record Subnet =
  subnetID :: Address
  subnetBroadcast :: Address
  subnetContains :: "Address \<Rightarrow> bool"

record DirectionStats =
  Packets :: "64 word"
  Bytes :: "64 word"

record NICStats =
  Tx :: DirectionStats
  Rx :: DirectionStats
  DisabledRx :: DirectionStats

text \<open>The counters of the owning stack that the interface increments.\<close>

record StackStats =
  UnknownProtocolRcvdPackets :: "64 word"
  MalformedRcvdPackets :: "64 word"
  PacketsReceived :: "64 word"
  InvalidSourceAddressesReceived :: "64 word"
  InvalidDestinationAddressesReceived :: "64 word"

text \<open>
  Modelled from the spec: \<open>tcpip.PacketBuffer\<close> and \<open>buffer.VectorisedView\<close> (not under
  src/). The receive path reads the total size of the data and its "contiguous first
  region"; the data is a list of views.
\<close>

record PacketBuffer =
  Data :: "string list"

definition Size :: "PacketBuffer \<Rightarrow> nat" where
  "Size pkt = sum_list (map length (Data pkt))"

definition First_view :: "PacketBuffer \<Rightarrow> string" where
  "First_view pkt = (case Data pkt of [] \<Rightarrow> [] | v # _ \<Rightarrow> v)"

type_synonym PacketEndpoint = nat

text \<open>What a packet observer is called with: itself, the local link address, the protocol, the packet.\<close>

type_synonym observerCall = "PacketEndpoint \<times> LinkAddress \<times> NetworkProtocolNumber \<times> PacketBuffer"

text \<open>
  What \<open>handlePacket\<close> hands to the endpoint of a cell: the cell, the route it builds
  (protocol, local address, remote address, local and remote link address) and the packet.
\<close>

record delivery =
  dRef :: ptr
  dProtocol :: NetworkProtocolNumber
  dLocalAddress :: Address
  dRemoteAddress :: Address
  dLocalLinkAddress :: LinkAddress
  dRemoteLinkAddress :: LinkAddress
  dPacket :: PacketBuffer

subsection \<open>The interface\<close>

text \<open>
  The fields of \<open>NIC.mu\<close> and \<open>NIC.stats\<close>, the store of cells (\<open>cells\<close>, with \<open>nextRef\<close>
  the next index that \<open>&referencedNetworkEndpoint{...}\<close> allocates), the counters of the
  stack, whether \<open>linkEP.Attach\<close> was called, and two logs of the calls that leave the
  interface: the packet observers invoked and the packets handed to network endpoints.

  The two Go maps that the code iterates over, \<open>endpoints\<close> and \<open>primary\<close>, are
  association lists read with \<open>map_of\<close> and written with \<open>AList.update\<close> and
  \<open>AList.delete\<close>; Go leaves the order of the iteration open, the list fixes one.
  \<open>mcastJoins\<close> is only read by key, where a missing key reads as zero. The state of
  NDP is a parameter \<open>'n\<close>.
\<close>

record 'n NIC =
  enabled :: bool
  attached :: bool
  spoofing :: bool
  promiscuous :: bool
  primary :: "(NetworkProtocolNumber \<times> ptr list) list"
  endpoints :: "(Address \<times> ptr) list"
  addressRanges :: "Subnet list"
  mcastJoins :: "Address \<Rightarrow> 32 word"
  packetEPs :: "(NetworkProtocolNumber \<times> PacketEndpoint list) list"
  ndp :: 'n
  stats :: NICStats
  cells :: "ptr \<Rightarrow> referencedNetworkEndpoint"
  nextRef :: ptr
  stackStats :: StackStats
  observed :: "observerCall list"
  delivered :: "delivery list"

subsection \<open>The collaborators\<close>

text \<open>
  Modelled from the spec: the \<open>NetworkProtocol\<close> interface (its implementations are not
  under src/): \<open>Number()\<close>, \<open>MinimumPacketSize()\<close>, \<open>ParseAddresses(bytes) \<rightarrow> (src, dst)\<close>,
  \<open>DefaultPrefixLen()\<close> and \<open>NewEndpoint\<close>, which "materializes a new endpoint" or fails:
  \<open>NewEndpointErr\<close> is the error, if any.
\<close>

record NetworkProtocol =
  Number :: NetworkProtocolNumber
  MinimumPacketSize :: nat
  ParseAddresses :: "string \<Rightarrow> Address \<times> Address"
  DefaultPrefixLen :: int
  NewEndpointErr :: "AddressWithPrefix \<Rightarrow> tcpip_error option"

text \<open>
  What the interface consumes and does not own, none of it under src/: the registries and
  flags of the stack, the capabilities and the address of the link endpoint, the scope of
  an IPv6 address (\<open>header.ScopeForIPv6Address\<close>, an error or a scope, a greater number
  being a wider scope), the operations of the NDP substate, and the forwarding of a
  packet that no local endpoint takes (\<open>Stack.FindRoute\<close>, \<open>Route.Resolve\<close>, the
  forwarder and the other interfaces of the stack). They are parameters. An NDP operation
  may change the interface in any way, fail or abort.
\<close>

record 'n env =
  networkProtocols :: "NetworkProtocolNumber \<Rightarrow> NetworkProtocol option"
  linkAddrResolvers :: "NetworkProtocolNumber \<Rightarrow> bool"
  handleLocal :: bool
  forwarding :: bool
  autoGenIPv6LinkLocal :: bool
  CapabilityLoopback :: bool
  CapabilityResolutionRequired :: bool
  linkAddress :: LinkAddress
  ScopeForIPv6Address :: "Address \<Rightarrow> tcpip_error + nat"
  startDuplicateAddressDetection ::
    "Address \<Rightarrow> ptr \<Rightarrow> 'n NIC \<Rightarrow> abort + (tcpip_error option \<times> 'n NIC)"
  stopDuplicateAddressDetection :: "Address \<Rightarrow> 'n NIC \<Rightarrow> abort + 'n NIC"
  cleanupAutoGenAddrResourcesAndNotify :: "Address \<Rightarrow> 'n NIC \<Rightarrow> abort + 'n NIC"
  doSLAAC :: "'n NIC \<Rightarrow> abort + 'n NIC"
  startSolicitingRouters :: "'n NIC \<Rightarrow> abort + 'n NIC"
  forwardPacket ::
    "LinkAddress \<Rightarrow> NetworkProtocolNumber \<Rightarrow> Address \<Rightarrow> Address \<Rightarrow> PacketBuffer \<Rightarrow>
     'n NIC \<Rightarrow> abort + 'n NIC"

subsection \<open>Constants and functions of package header\<close>

text \<open>
  Modelled from the spec: the constants of package header (not under src/). The spec
  names the IPv4 limited broadcast address 255.255.255.255, the all-nodes multicast
  group ff02::1, and "8 bits \<times> IPv4AddressSize = 32 bits". The protocol numbers are the
  EtherTypes of IPv4 and IPv6 and Linux's ETH_P_ALL; only that they differ is used.
\<close>

definition IPv4ProtocolNumber :: NetworkProtocolNumber where
  "IPv4ProtocolNumber = 0x0800"

definition IPv6ProtocolNumber :: NetworkProtocolNumber where
  "IPv6ProtocolNumber = 0x86dd"

definition EthernetProtocolAll :: NetworkProtocolNumber where
  "EthernetProtocolAll = 0x0003"

definition IPv4AddressSize :: int where
  "IPv4AddressSize = 4"

definition IPv6AddressSize :: nat where
  "IPv6AddressSize = 16"

definition IPv4Broadcast :: Address where
  "IPv4Broadcast = [CHR 0xFF, CHR 0xFF, CHR 0xFF, CHR 0xFF]"

definition IPv6AllNodesMulticastAddress :: Address where
  "IPv6AllNodesMulticastAddress =
     [CHR 0xFF, CHR 0x02, CHR 0x00, CHR 0x00, CHR 0x00, CHR 0x00, CHR 0x00, CHR 0x00,
      CHR 0x00, CHR 0x00, CHR 0x00, CHR 0x00, CHR 0x00, CHR 0x00, CHR 0x00, CHR 0x01]"

text \<open>
  Modelled from the spec: \<open>header.IsV6UnicastAddress\<close> (not under src/). The spec says
  that "multicast addresses are not IPv6 unicast" and writes the multicast groups as
  ff02::...: an IPv6 address has 16 bytes and is multicast when its first byte is 0xff.
  Any other address the package may exclude is not modelled.
\<close>

definition IsV6UnicastAddress :: "Address \<Rightarrow> bool" where
  "IsV6UnicastAddress addr =
     (if length addr \<noteq> IPv6AddressSize then False else hd addr \<noteq> CHR 0xFF)"

text \<open>
  Modelled from the spec: \<open>header.SolicitedNodeAddr\<close> (not under src/): the
  "ff02::1:ffXX:XXXX group derived from the low 24 bits of an IPv6 unicast address".
\<close>

definition SolicitedNodeAddr :: "Address \<Rightarrow> Address" where
  "SolicitedNodeAddr addr =
     [CHR 0xFF, CHR 0x02, CHR 0x00, CHR 0x00, CHR 0x00, CHR 0x00, CHR 0x00, CHR 0x00,
      CHR 0x00, CHR 0x00, CHR 0x00, CHR 0x01, CHR 0xFF] @ drop (length addr - 3) addr"

text \<open>A solicited-node group is not a unicast address: the two recursions below end.\<close>

lemma SolicitedNodeAddr_not_unicast: "\<not> IsV6UnicastAddress (SolicitedNodeAddr a)"
  by (simp add: IsV6UnicastAddress_def SolicitedNodeAddr_def)

subsection \<open>The reference cell\<close>

definition getKind :: "'n NIC \<Rightarrow> ptr \<Rightarrow> networkEndpointKind" where
  "getKind s r = kind (cells s r)"

definition setKind :: "ptr \<Rightarrow> networkEndpointKind \<Rightarrow> 'n NIC \<Rightarrow> 'n NIC" where
  "setKind r k s = s\<lparr>cells := (cells s)(r := (cells s r)\<lparr>kind := k\<rparr>)\<rparr>"

definition isValidForOutgoingRLocked :: "'n NIC \<Rightarrow> ptr \<Rightarrow> bool" where
  "isValidForOutgoingRLocked s r = (getKind s r \<noteq> permanentExpired \<or> spoofing s)"

definition isValidForOutgoing :: "'n NIC \<Rightarrow> ptr \<Rightarrow> bool" where
  "isValidForOutgoing s r = isValidForOutgoingRLocked s r"

text \<open>
  \<open>tryIncRef\<close>: the count goes from \<open>v\<close> to \<open>v + 1\<close> unless it is zero. The count is an
  \<open>int32\<close> and the addition wraps.
\<close>

definition tryIncRef :: "ptr \<Rightarrow> 'n NIC \<Rightarrow> bool \<times> 'n NIC" where
  "tryIncRef r s =
     (let v = refs (cells s r) in
      if v = 0 then (False, s)
      else (True, s\<lparr>cells := (cells s)(r := (cells s r)\<lparr>refs := v + 1\<rparr>)\<rparr>))"

definition incRef :: "ptr \<Rightarrow> 'n NIC \<Rightarrow> 'n NIC" where
  "incRef r s = s\<lparr>cells := (cells s)(r := (cells s r)\<lparr>refs := refs (cells s r) + 1\<rparr>)\<rparr>"

text \<open>The list of a protocol in \<open>primary\<close>; a missing key reads as the empty slice.\<close>

definition primaryOf :: "'n NIC \<Rightarrow> NetworkProtocolNumber \<Rightarrow> ptr list" where
  "primaryOf s proto = (case map_of (primary s) proto of None \<Rightarrow> [] | Some l \<Rightarrow> l)"

definition setPrimary :: "NetworkProtocolNumber \<Rightarrow> ptr list \<Rightarrow> 'n NIC \<Rightarrow> 'n NIC" where
  "setPrimary proto l s = s\<lparr>primary := AList.update proto l (primary s)\<rparr>"

definition insertPrimaryEndpointLocked ::
  "ptr \<Rightarrow> PrimaryEndpointBehavior \<Rightarrow> 'n NIC \<Rightarrow> 'n NIC" where
  "insertPrimaryEndpointLocked r peb s =
     (case peb of
        CanBePrimaryEndpoint \<Rightarrow>
          setPrimary (protocol (cells s r)) (primaryOf s (protocol (cells s r)) @ [r]) s
      | FirstPrimaryEndpoint \<Rightarrow>
          setPrimary (protocol (cells s r)) (r # primaryOf s (protocol (cells s r))) s
      | NeverPrimaryEndpoint \<Rightarrow> s)"

text \<open>
  The loop of \<open>removeEndpointLocked\<close> and of \<open>unregisterPacketEndpoint\<close>: the list without
  the first element equal to \<open>r\<close>, or nothing when there is none (then the map is not
  written).
\<close>

fun removeFirst :: "'a \<Rightarrow> 'a list \<Rightarrow> 'a list option" where
  "removeFirst r [] = None"
| "removeFirst r (x # xs) =
     (if x = r then Some xs
      else (case removeFirst r xs of None \<Rightarrow> None | Some ys \<Rightarrow> Some (x # ys)))"

definition closeEndpoint :: "ptr \<Rightarrow> 'n NIC \<Rightarrow> 'n NIC" where
  "closeEndpoint r s =
     s\<lparr>cells := (cells s)(r := (cells s r)\<lparr>ep := (ep (cells s r))\<lparr>closed := True\<rparr>\<rparr>)\<rparr>"

definition removeEndpointLocked :: "ptr \<Rightarrow> 'n NIC \<Rightarrow> abort + 'n NIC" where
  "removeEndpointLocked r s =
     (let nid = LocalAddress (ep (cells s r)) in
      if map_of (endpoints s) nid \<noteq> Some r then Inr s
      else if getKind s r = permanent then
        Inl (Panic ''Reference count dropped to zero before being removed'')
      else
        let s1 = s\<lparr>endpoints := AList.delete nid (endpoints s)\<rparr>;
            s2 = (case removeFirst r (primaryOf s1 (protocol (cells s1 r))) of
                    None \<Rightarrow> s1
                  | Some l \<Rightarrow> setPrimary (protocol (cells s1 r)) l s1)
        in Inr (closeEndpoint r s2))"

definition removeEndpoint :: "ptr \<Rightarrow> 'n NIC \<Rightarrow> abort + 'n NIC" where
  "removeEndpoint r s = removeEndpointLocked r s"

definition decRef :: "ptr \<Rightarrow> 'n NIC \<Rightarrow> abort + 'n NIC" where
  "decRef r s =
     (let s1 = s\<lparr>cells := (cells s)(r := (cells s r)\<lparr>refs := refs (cells s r) - 1\<rparr>)\<rparr> in
      if refs (cells s1 r) = 0 then removeEndpoint r s1 else Inr s1)"

definition decRefLocked :: "ptr \<Rightarrow> 'n NIC \<Rightarrow> abort + (bool \<times> 'n NIC)" where
  "decRefLocked r s =
     (let s1 = s\<lparr>cells := (cells s)(r := (cells s r)\<lparr>refs := refs (cells s r) - 1\<rparr>)\<rparr> in
      if refs (cells s1 r) = 0 then
        (case removeEndpointLocked r s1 of Inl a \<Rightarrow> Inl a | Inr s2 \<Rightarrow> Inr (True, s2))
      else Inr (False, s1))"

subsection \<open>Adding an address, joining a group\<close>

text \<open>
  The loop of \<open>addAddressLocked\<close> over \<open>refs := n.mu.primary[ref.protocol]\<close> when a cell
  is promoted. \<open>arr\<close> is the array behind \<open>refs\<close>: \<open>append(refs[:i], refs[i+1:]...)\<close>
  has the capacity it needs, so it moves the elements after \<open>i\<close> one place down in that
  same array and leaves its last place as it was, and the loop, which in the
  \<open>FirstPrimaryEndpoint\<close> case goes on, reads the array so changed. The result says
  whether the function returned from inside the loop.
\<close>

function promoteLoop ::
  "ptr \<Rightarrow> PrimaryEndpointBehavior \<Rightarrow> ptr list \<Rightarrow> nat \<Rightarrow> 'n NIC \<Rightarrow> bool \<times> 'n NIC" where
  "promoteLoop ref peb arr i s =
     (if i < length arr then
        (if arr ! i = ref then
           (case peb of
              CanBePrimaryEndpoint \<Rightarrow> (True, s)
            | FirstPrimaryEndpoint \<Rightarrow>
                if i = 0 then (True, s)
                else promoteLoop ref peb (take i arr @ drop (Suc i) arr @ [last arr]) (Suc i)
                       (setPrimary (protocol (cells s ref)) (take i arr @ drop (Suc i) arr) s)
            | NeverPrimaryEndpoint \<Rightarrow>
                (True, setPrimary (protocol (cells s ref)) (take i arr @ drop (Suc i) arr) s))
         else promoteLoop ref peb arr (Suc i) s)
      else (False, s))"
  by pat_completeness auto
termination
  by (relation "measure (\<lambda>(ref, peb, arr, i, s). length arr - i)") auto

declare promoteLoop.simps [simp del]

text \<open>
  \<open>addAddressLocked\<close> and \<open>joinGroupLocked\<close> call each other: adding an IPv6 unicast
  address joins its solicited-node group, and joining a group adds its address. The
  result is an abort, or what the call returned together with the interface it left.
\<close>

function addAddressLocked ::
    "'n env \<Rightarrow> ProtocolAddress \<Rightarrow> PrimaryEndpointBehavior \<Rightarrow> networkEndpointKind \<Rightarrow>
     networkEndpointConfigType \<Rightarrow> bool \<Rightarrow> 'n NIC \<Rightarrow> abort + ((tcpip_error + ptr) \<times> 'n NIC)"
  and joinGroupLocked ::
    "'n env \<Rightarrow> NetworkProtocolNumber \<Rightarrow> Address \<Rightarrow> 'n NIC \<Rightarrow>
     abort + (tcpip_error option \<times> 'n NIC)"
where
  "addAddressLocked d protocolAddress peb knd cfg dep s =
     (let nid = Address (AddressWithPrefix protocolAddress);
          existing =
            (case map_of (endpoints s) nid of
               None \<Rightarrow> Inr (None, s)
             | Some ref \<Rightarrow>
                 if knd \<noteq> permanent then Inr (Some (Inl ErrDuplicateAddress), s)
                 else
                   (case getKind s ref of
                      permanentTentative \<Rightarrow> Inr (Some (Inl ErrDuplicateAddress), s)
                    | permanent \<Rightarrow> Inr (Some (Inl ErrDuplicateAddress), s)
                    | _ \<Rightarrow>
                        (case tryIncRef ref s of
                           (True, s1) \<Rightarrow>
                             let s2 = setKind ref permanent s1;
                                 s3 = s2\<lparr>cells := (cells s2)
                                        (ref := (cells s2 ref)\<lparr>deprecated := dep, configType := cfg\<rparr>)\<rparr>
                             in (case promoteLoop ref peb (primaryOf s3 (protocol (cells s3 ref))) 0 s3 of
                                   (True, s4) \<Rightarrow> Inr (Some (Inr ref), s4)
                                 | (False, s4) \<Rightarrow>
                                     Inr (Some (Inr ref), insertPrimaryEndpointLocked ref peb s4))
                         | (False, s1) \<Rightarrow>
                             (case removeEndpointLocked ref s1 of
                                Inl a \<Rightarrow> Inl a
                              | Inr s2 \<Rightarrow> Inr (None, s2)))))
      in case existing of
           Inl a \<Rightarrow> Inl a
         | Inr (Some res, s1) \<Rightarrow> Inr (res, s1)
         | Inr (None, s1) \<Rightarrow>
             (case networkProtocols d (Protocol protocolAddress) of
                None \<Rightarrow> Inr (Inl ErrUnknownProtocol, s1)
              | Some netProto \<Rightarrow>
                  (case NewEndpointErr netProto (AddressWithPrefix protocolAddress) of
                     Some err \<Rightarrow> Inr (Inl err, s1)
                   | None \<Rightarrow>
                       let isIPv6Unicast =
                             (Protocol protocolAddress = IPv6ProtocolNumber \<and> IsV6UnicastAddress nid);
                           knd1 = (if isIPv6Unicast \<and> knd = permanent then permanentTentative else knd);
                           ref = nextRef s1;
                           cell = \<lparr>ep = \<lparr>LocalAddress = nid,
                                          epPrefixLen = PrefixLen (AddressWithPrefix protocolAddress),
                                          closed = False\<rparr>,
                                   protocol = Protocol protocolAddress,
                                   linkCache = (CapabilityResolutionRequired d \<and>
                                                linkAddrResolvers d (Protocol protocolAddress)),
                                   refs = 1, kind = knd1, configType = cfg, deprecated = dep\<rparr>;
                           s2 = s1\<lparr>cells := (cells s1)(ref := cell), nextRef := Suc ref\<rparr>
                       in case (if isIPv6Unicast
                                then joinGroupLocked d (Protocol protocolAddress) (SolicitedNodeAddr nid) s2
                                else Inr (None, s2)) of
                            Inl a \<Rightarrow> Inl a
                          | Inr (Some err, s3) \<Rightarrow> Inr (Inl err, s3)
                          | Inr (None, s3) \<Rightarrow>
                              let s4 = s3\<lparr>endpoints := AList.update nid ref (endpoints s3)\<rparr>;
                                  s5 = insertPrimaryEndpointLocked ref peb s4
                              in if isIPv6Unicast \<and> knd1 = permanentTentative \<and> enabled s5 then
                                   (case startDuplicateAddressDetection d nid ref s5 of
                                      Inl a \<Rightarrow> Inl a
                                    | Inr (Some err, s6) \<Rightarrow> Inr (Inl err, s6)
                                    | Inr (None, s6) \<Rightarrow> Inr (Inr ref, s6))
                                 else Inr (Inr ref, s5))))"
| "joinGroupLocked d proto addr s =
     (let joins = mcastJoins s addr in
      if joins = 0 then
        (case networkProtocols d proto of
           None \<Rightarrow> Inr (Some ErrUnknownProtocol, s)
         | Some netProto \<Rightarrow>
             (case addAddressLocked d
                     \<lparr>Protocol = proto,
                      AddressWithPrefix = \<lparr>Address = addr, PrefixLen = DefaultPrefixLen netProto\<rparr>\<rparr>
                     NeverPrimaryEndpoint permanent static False s of
                Inl a \<Rightarrow> Inl a
              | Inr (Inl err, s1) \<Rightarrow> Inr (Some err, s1)
              | Inr (Inr ref, s1) \<Rightarrow> Inr (None, s1\<lparr>mcastJoins := (mcastJoins s1)(addr := joins + 1)\<rparr>)))
      else Inr (None, s\<lparr>mcastJoins := (mcastJoins s)(addr := joins + 1)\<rparr>))"
  by pat_completeness auto

termination
  by (relation "measure (\<lambda>x. case x of
          Inl (d, pa, peb, knd, cfg, dep, s) \<Rightarrow>
            (if IsV6UnicastAddress (Address (AddressWithPrefix pa)) then 2 else 0)
        | Inr (d, proto, addr, s) \<Rightarrow>
            (if IsV6UnicastAddress addr then 3 else 1))")
     (auto simp: SolicitedNodeAddr_not_unicast)

declare addAddressLocked.simps [simp del] joinGroupLocked.simps [simp del]

definition AddAddress ::
  "'n env \<Rightarrow> ProtocolAddress \<Rightarrow> PrimaryEndpointBehavior \<Rightarrow> 'n NIC \<Rightarrow>
   abort + (tcpip_error option \<times> 'n NIC)" where
  "AddAddress d protocolAddress peb s =
     (case addAddressLocked d protocolAddress peb permanent static False s of
        Inl a \<Rightarrow> Inl a
      | Inr (Inl err, s1) \<Rightarrow> Inr (Some err, s1)
      | Inr (Inr ref, s1) \<Rightarrow> Inr (None, s1))"

definition joinGroup ::
  "'n env \<Rightarrow> NetworkProtocolNumber \<Rightarrow> Address \<Rightarrow> 'n NIC \<Rightarrow>
   abort + (tcpip_error option \<times> 'n NIC)" where
  "joinGroup d proto addr s = joinGroupLocked d proto addr s"

subsection \<open>Removing an address, leaving a group\<close>

function removePermanentAddressLocked ::
    "'n env \<Rightarrow> Address \<Rightarrow> 'n NIC \<Rightarrow> abort + (tcpip_error option \<times> 'n NIC)"
  and leaveGroupLocked ::
    "'n env \<Rightarrow> Address \<Rightarrow> 'n NIC \<Rightarrow> abort + (tcpip_error option \<times> 'n NIC)"
where
  "removePermanentAddressLocked d addr s =
     (case map_of (endpoints s) addr of
        None \<Rightarrow> Inr (Some ErrBadLocalAddress, s)
      | Some r \<Rightarrow>
          let knd = getKind s r in
          if knd \<noteq> permanent \<and> knd \<noteq> permanentTentative then Inr (Some ErrBadLocalAddress, s)
          else
            let isIPv6Unicast =
                  (protocol (cells s r) = IPv6ProtocolNumber \<and> IsV6UnicastAddress addr)
            in case (if isIPv6Unicast \<and> knd = permanentTentative
                     then stopDuplicateAddressDetection d addr s else Inr s) of
                 Inl a \<Rightarrow> Inl a
               | Inr s1 \<Rightarrow>
                   (case (if isIPv6Unicast \<and> configType (cells s1 r) = slaac
                          then cleanupAutoGenAddrResourcesAndNotify d addr s1 else Inr s1) of
                      Inl a \<Rightarrow> Inl a
                    | Inr s2 \<Rightarrow>
                        (case decRefLocked r (setKind r permanentExpired s2) of
                           Inl a \<Rightarrow> Inl a
                         | Inr (False, s3) \<Rightarrow> Inr (None, s3)
                         | Inr (True, s3) \<Rightarrow>
                             if isIPv6Unicast
                             then leaveGroupLocked d (SolicitedNodeAddr addr) s3
                             else Inr (None, s3))))"
| "leaveGroupLocked d addr s =
     (let joins = mcastJoins s addr in
      if joins = 0 then Inr (Some ErrBadLocalAddress, s)
      else
        case (if joins = 1 then removePermanentAddressLocked d addr s else Inr (None, s)) of
          Inl a \<Rightarrow> Inl a
        | Inr (Some err, s1) \<Rightarrow> Inr (Some err, s1)
        | Inr (None, s1) \<Rightarrow> Inr (None, s1\<lparr>mcastJoins := (mcastJoins s1)(addr := joins - 1)\<rparr>))"
  by pat_completeness auto
termination
  by (relation "measure (\<lambda>x. case x of
          Inl (d, addr, s) \<Rightarrow> (if IsV6UnicastAddress addr then 2 else 0)
        | Inr (d, addr, s) \<Rightarrow> (if IsV6UnicastAddress addr then 3 else 1))")
     (auto simp: SolicitedNodeAddr_not_unicast)

declare removePermanentAddressLocked.simps [simp del] leaveGroupLocked.simps [simp del]

definition RemoveAddress ::
  "'n env \<Rightarrow> Address \<Rightarrow> 'n NIC \<Rightarrow> abort + (tcpip_error option \<times> 'n NIC)" where
  "RemoveAddress d addr s = removePermanentAddressLocked d addr s"

definition leaveGroup ::
  "'n env \<Rightarrow> Address \<Rightarrow> 'n NIC \<Rightarrow> abort + (tcpip_error option \<times> 'n NIC)" where
  "leaveGroup d addr s = leaveGroupLocked d addr s"

subsection \<open>Looking an address up\<close>

text \<open>
  The loop of \<open>getRefOrCreateTemp\<close> over \<open>n.mu.addressRanges\<close>: whether some subnet,
  other than as its own address or its broadcast address, contains the address.
\<close>

fun inAddressRanges :: "Address \<Rightarrow> Subnet list \<Rightarrow> bool" where
  "inAddressRanges address [] = False"
| "inAddressRanges address (sn # sns) =
     (if address = subnetID sn then inAddressRanges address sns
      else if address = subnetBroadcast sn then inAddressRanges address sns
      else if subnetContains sn address then True
      else inAddressRanges address sns)"

text \<open>
  \<open>getRefOrCreateTemp\<close>. In \<open>found\<close>, the part under the read lock, \<open>Some res\<close> is a
  return of \<open>res\<close> and \<open>None\<close> is falling out of the \<open>if\<close>.
\<close>

definition getRefOrCreateTemp ::
  "'n env \<Rightarrow> NetworkProtocolNumber \<Rightarrow> Address \<Rightarrow> PrimaryEndpointBehavior \<Rightarrow> getRefBehaviour \<Rightarrow>
   'n NIC \<Rightarrow> abort + (ptr option \<times> 'n NIC)" where
  "getRefOrCreateTemp d proto address peb tempRef s =
     (let spoofingOrPromiscuous =
            (case tempRef of
               spoofingRef \<Rightarrow> spoofing s
             | promiscuousRef \<Rightarrow> promiscuous s
             | forceSpoofingRef \<Rightarrow> True);
          found =
            (case map_of (endpoints s) address of
               None \<Rightarrow> (None, s)
             | Some ref \<Rightarrow>
                 (case getKind s ref of
                    permanentExpired \<Rightarrow>
                      if \<not> spoofingOrPromiscuous then (Some None, s)
                      else (case tryIncRef ref s of
                              (True, s1) \<Rightarrow> (Some (Some ref), s1)
                            | (False, s1) \<Rightarrow> (None, s1))
                  | temporary \<Rightarrow>
                      (case tryIncRef ref s of
                         (True, s1) \<Rightarrow> (Some (Some ref), s1)
                       | (False, s1) \<Rightarrow> (None, s1))
                  | permanent \<Rightarrow>
                      (case tryIncRef ref s of
                         (True, s1) \<Rightarrow> (Some (Some ref), s1)
                       | (False, s1) \<Rightarrow> (None, s1))
                  | permanentTentative \<Rightarrow> (None, s)))
      in case found of
           (Some res, s1) \<Rightarrow> Inr (res, s1)
         | (None, s1) \<Rightarrow>
             let createTempEP =
                   (if spoofingOrPromiscuous then True
                    else inAddressRanges address (addressRanges s1))
             in if \<not> createTempEP then Inr (None, s1)
                else
                  case (case map_of (endpoints s1) address of
                          None \<Rightarrow> Inr (None, s1)
                        | Some ref \<Rightarrow>
                            (case tryIncRef ref s1 of
                               (True, s2) \<Rightarrow> Inr (Some ref, s2)
                             | (False, s2) \<Rightarrow>
                                 (case removeEndpointLocked ref s2 of
                                    Inl a \<Rightarrow> Inl a
                                  | Inr s3 \<Rightarrow> Inr (None, s3)))) of
                    Inl a \<Rightarrow> Inl a
                  | Inr (Some ref, s2) \<Rightarrow> Inr (Some ref, s2)
                  | Inr (None, s2) \<Rightarrow>
                      (case networkProtocols d proto of
                         None \<Rightarrow> Inr (None, s2)
                       | Some netProto \<Rightarrow>
                           (case addAddressLocked d
                                   \<lparr>Protocol = proto,
                                    AddressWithPrefix =
                                      \<lparr>Address = address, PrefixLen = DefaultPrefixLen netProto\<rparr>\<rparr>
                                   peb temporary static False s2 of
                              Inl a \<Rightarrow> Inl a
                            | Inr (Inl err, s3) \<Rightarrow> Inr (None, s3)
                            | Inr (Inr ref, s3) \<Rightarrow> Inr (Some ref, s3))))"

definition getRef ::
  "'n env \<Rightarrow> NetworkProtocolNumber \<Rightarrow> Address \<Rightarrow> 'n NIC \<Rightarrow> abort + (ptr option \<times> 'n NIC)" where
  "getRef d proto dst s = getRefOrCreateTemp d proto dst CanBePrimaryEndpoint promiscuousRef s"

definition findEndpoint ::
  "'n env \<Rightarrow> NetworkProtocolNumber \<Rightarrow> Address \<Rightarrow> PrimaryEndpointBehavior \<Rightarrow> 'n NIC \<Rightarrow>
   abort + (ptr option \<times> 'n NIC)" where
  "findEndpoint d proto address peb s = getRefOrCreateTemp d proto address peb spoofingRef s"

definition hasPermanentAddrLocked :: "'n NIC \<Rightarrow> Address \<Rightarrow> bool" where
  "hasPermanentAddrLocked s addr =
     (case map_of (endpoints s) addr of
        None \<Rightarrow> False
      | Some ref \<Rightarrow> getKind s ref = permanent \<or> getKind s ref = permanentTentative)"

definition isAddrTentative :: "'n NIC \<Rightarrow> Address \<Rightarrow> bool" where
  "isAddrTentative s addr =
     (case map_of (endpoints s) addr of
        None \<Rightarrow> False
      | Some ref \<Rightarrow> getKind s ref = permanentTentative)"

subsection \<open>Source address selection\<close>

text \<open>The loop of \<open>primaryEndpoint\<close>; \<open>dep\<close> is \<open>deprecatedEndpoint\<close>.\<close>

fun primaryEndpointLoop ::
  "ptr list \<Rightarrow> ptr option \<Rightarrow> 'n NIC \<Rightarrow> abort + (ptr option \<times> 'n NIC)" where
  "primaryEndpointLoop [] dep s = Inr (dep, s)"
| "primaryEndpointLoop (r # rs) dep s =
     (if \<not> isValidForOutgoingRLocked s r then primaryEndpointLoop rs dep s
      else if \<not> deprecated (cells s r) then
        (case tryIncRef r s of
           (True, s1) \<Rightarrow>
             (case dep of
                None \<Rightarrow> Inr (Some r, s1)
              | Some de \<Rightarrow>
                  (case decRefLocked de s1 of
                     Inl a \<Rightarrow> Inl a
                   | Inr (removed, s2) \<Rightarrow> Inr (Some r, s2)))
         | (False, s1) \<Rightarrow> primaryEndpointLoop rs dep s1)
      else if dep = None then
        (case tryIncRef r s of
           (True, s1) \<Rightarrow> primaryEndpointLoop rs (Some r) s1
         | (False, s1) \<Rightarrow> primaryEndpointLoop rs dep s1)
      else primaryEndpointLoop rs dep s)"

record ipv6AddrCandidate =
  cRef :: ptr
  cScope :: nat

text \<open>The candidate set of \<open>primaryIPv6Endpoint\<close>; a scope lookup that fails is fatal.\<close>

fun candidates :: "'n env \<Rightarrow> 'n NIC \<Rightarrow> ptr list \<Rightarrow> abort + ipv6AddrCandidate list" where
  "candidates d s [] = Inr []"
| "candidates d s (r # rs) =
     (if \<not> isValidForOutgoing s r then candidates d s rs
      else
        case ScopeForIPv6Address d (LocalAddress (ep (cells s r))) of
          Inl err \<Rightarrow> Inl (Fatal ''header.ScopeForIPv6Address'')
        | Inr scope \<Rightarrow>
            (case candidates d s rs of
               Inl a \<Rightarrow> Inl a
             | Inr cs \<Rightarrow> Inr (\<lparr>cRef = r, cScope = scope\<rparr> # cs)))"

text \<open>The comparator handed to \<open>sort.Slice\<close>: whether \<open>cs[i]\<close> goes before \<open>cs[j]\<close>.\<close>

definition candidateLess ::
  "'n NIC \<Rightarrow> Address \<Rightarrow> nat \<Rightarrow> ipv6AddrCandidate list \<Rightarrow> nat \<Rightarrow> nat \<Rightarrow> bool" where
  "candidateLess s remoteAddr remoteScope cs i j =
     (let sa = cs ! i; sb = cs ! j in
      if LocalAddress (ep (cells s (cRef sa))) = remoteAddr then True
      else if LocalAddress (ep (cells s (cRef sb))) = remoteAddr then False
      else if cScope sa < cScope sb then cScope sa \<ge> remoteScope
      else if cScope sb < cScope sa then cScope sb < remoteScope
      else if deprecated (cells s (cRef sa)) \<noteq> deprecated (cells s (cRef sb))
        then deprecated (cells s (cRef sb))
      else i < j)"

text \<open>
  Modelled from the spec: \<open>sort.Slice\<close> (the Go library, not under src/). The spec says
  "Sort stably by the comparator"; the comparator compares places of the slice as it is at
  that moment, so the sort is written out: an insertion sort, which moves the element at
  \<open>i\<close> down while it goes before its left neighbour (the Go library sorts a short slice
  in this way).
\<close>

fun insertDown :: "('a list \<Rightarrow> nat \<Rightarrow> nat \<Rightarrow> bool) \<Rightarrow> nat \<Rightarrow> 'a list \<Rightarrow> 'a list" where
  "insertDown lt 0 xs = xs"
| "insertDown lt (Suc j) xs =
     (if lt xs (Suc j) j
      then insertDown lt j (xs[j := xs ! Suc j, Suc j := xs ! j])
      else xs)"

definition sortSlice :: "('a list \<Rightarrow> nat \<Rightarrow> nat \<Rightarrow> bool) \<Rightarrow> 'a list \<Rightarrow> 'a list" where
  "sortSlice lt xs = fold (insertDown lt) [1..<length xs] xs"

text \<open>The last loop of \<open>primaryIPv6Endpoint\<close>: the first candidate whose count can be taken.\<close>

fun firstIncRef :: "ipv6AddrCandidate list \<Rightarrow> 'n NIC \<Rightarrow> ptr option \<times> 'n NIC" where
  "firstIncRef [] s = (None, s)"
| "firstIncRef (c # cs) s =
     (case tryIncRef (cRef c) s of
        (True, s1) \<Rightarrow> (Some (cRef c), s1)
      | (False, s1) \<Rightarrow> firstIncRef cs s1)"

definition primaryIPv6Endpoint ::
  "'n env \<Rightarrow> Address \<Rightarrow> 'n NIC \<Rightarrow> abort + (ptr option \<times> 'n NIC)" where
  "primaryIPv6Endpoint d remoteAddr s =
     (let primaryAddrs = primaryOf s IPv6ProtocolNumber in
      if length primaryAddrs = 0 then Inr (None, s)
      else
        case candidates d s primaryAddrs of
          Inl a \<Rightarrow> Inl a
        | Inr cs \<Rightarrow>
            (case ScopeForIPv6Address d remoteAddr of
               Inl err \<Rightarrow> Inl (Fatal ''header.ScopeForIPv6Address'')
             | Inr remoteScope \<Rightarrow>
                 Inr (firstIncRef (sortSlice (candidateLess s remoteAddr remoteScope) cs) s)))"

definition primaryEndpoint ::
  "'n env \<Rightarrow> NetworkProtocolNumber \<Rightarrow> Address \<Rightarrow> 'n NIC \<Rightarrow> abort + (ptr option \<times> 'n NIC)" where
  "primaryEndpoint d proto remoteAddr s =
     (if proto = IPv6ProtocolNumber \<and> remoteAddr \<noteq> [] then primaryIPv6Endpoint d remoteAddr s
      else primaryEndpointLoop (primaryOf s proto) None s)"

subsection \<open>Enumerating the addresses\<close>

fun AllAddressesLoop ::
  "'n NIC \<Rightarrow> (Address \<times> ptr) list \<Rightarrow> ProtocolAddress list \<Rightarrow> ProtocolAddress list" where
  "AllAddressesLoop s [] addrs = addrs"
| "AllAddressesLoop s ((nid, ref) # rest) addrs =
     (case getKind s ref of
        permanentExpired \<Rightarrow> AllAddressesLoop s rest addrs
      | temporary \<Rightarrow> AllAddressesLoop s rest addrs
      | _ \<Rightarrow>
          AllAddressesLoop s rest
            (addrs @ [\<lparr>Protocol = protocol (cells s ref),
                       AddressWithPrefix =
                         \<lparr>Address = nid, PrefixLen = epPrefixLen (ep (cells s ref))\<rparr>\<rparr>]))"

definition AllAddresses :: "'n NIC \<Rightarrow> ProtocolAddress list" where
  "AllAddresses s = AllAddressesLoop s (endpoints s) []"

fun PrimaryAddressesInner ::
  "'n NIC \<Rightarrow> NetworkProtocolNumber \<Rightarrow> ptr list \<Rightarrow> ProtocolAddress list \<Rightarrow> ProtocolAddress list" where
  "PrimaryAddressesInner s proto [] addrs = addrs"
| "PrimaryAddressesInner s proto (ref # rest) addrs =
     (case getKind s ref of
        permanentTentative \<Rightarrow> PrimaryAddressesInner s proto rest addrs
      | permanentExpired \<Rightarrow> PrimaryAddressesInner s proto rest addrs
      | temporary \<Rightarrow> PrimaryAddressesInner s proto rest addrs
      | _ \<Rightarrow>
          PrimaryAddressesInner s proto rest
            (addrs @ [\<lparr>Protocol = proto,
                       AddressWithPrefix =
                         \<lparr>Address = LocalAddress (ep (cells s ref)),
                          PrefixLen = epPrefixLen (ep (cells s ref))\<rparr>\<rparr>]))"

fun PrimaryAddressesLoop ::
  "'n NIC \<Rightarrow> (NetworkProtocolNumber \<times> ptr list) list \<Rightarrow> ProtocolAddress list \<Rightarrow>
   ProtocolAddress list" where
  "PrimaryAddressesLoop s [] addrs = addrs"
| "PrimaryAddressesLoop s ((proto, l) # rest) addrs =
     PrimaryAddressesLoop s rest (PrimaryAddressesInner s proto l addrs)"

definition PrimaryAddresses :: "'n NIC \<Rightarrow> ProtocolAddress list" where
  "PrimaryAddresses s = PrimaryAddressesLoop s (primary s) []"

text \<open>The address and prefix length that \<open>primaryAddress\<close> returns for a cell.\<close>

definition addressOf :: "'n NIC \<Rightarrow> ptr \<Rightarrow> AddressWithPrefix" where
  "addressOf s ref =
     \<lparr>Address = LocalAddress (ep (cells s ref)), PrefixLen = epPrefixLen (ep (cells s ref))\<rparr>"

text \<open>The loop of \<open>primaryAddress\<close>: \<open>Inl\<close> is a return from inside it, \<open>Inr\<close> the
  \<open>deprecatedEndpoint\<close> it ends with.\<close>

fun primaryAddressLoop ::
  "'n NIC \<Rightarrow> ptr list \<Rightarrow> ptr option \<Rightarrow> AddressWithPrefix + ptr option" where
  "primaryAddressLoop s [] dep = Inr dep"
| "primaryAddressLoop s (ref # rest) dep =
     (case getKind s ref of
        permanentTentative \<Rightarrow> primaryAddressLoop s rest dep
      | permanentExpired \<Rightarrow> primaryAddressLoop s rest dep
      | temporary \<Rightarrow> primaryAddressLoop s rest dep
      | _ \<Rightarrow>
          if \<not> deprecated (cells s ref) then Inl (addressOf s ref)
          else if dep = None then primaryAddressLoop s rest (Some ref)
          else primaryAddressLoop s rest dep)"

definition primaryAddress :: "'n NIC \<Rightarrow> NetworkProtocolNumber \<Rightarrow> AddressWithPrefix" where
  "primaryAddress s proto =
     (case map_of (primary s) proto of
        None \<Rightarrow> \<lparr>Address = [], PrefixLen = 0\<rparr>
      | Some l \<Rightarrow>
          (case primaryAddressLoop s l None of
             Inl res \<Rightarrow> res
           | Inr (Some deprecatedEndpoint) \<Rightarrow> addressOf s deprecatedEndpoint
           | Inr None \<Rightarrow> \<lparr>Address = [], PrefixLen = 0\<rparr>))"

subsection \<open>Enabling the interface\<close>

definition isLoopback :: "'n env \<Rightarrow> bool" where
  "isLoopback d = CapabilityLoopback d"

text \<open>
  The loop of \<open>enable\<close> over \<open>n.mu.endpoints\<close>, here over the cells the table holds when
  the loop starts: every permanent or tentative IPv6 unicast cell becomes tentative and
  duplicate address detection is started for it.
\<close>

fun enableDADLoop ::
  "'n env \<Rightarrow> ptr list \<Rightarrow> 'n NIC \<Rightarrow> abort + (tcpip_error option \<times> 'n NIC)" where
  "enableDADLoop d [] s = Inr (None, s)"
| "enableDADLoop d (r # rs) s =
     (let addr = LocalAddress (ep (cells s r)); k = getKind s r in
      if (k \<noteq> permanent \<and> k \<noteq> permanentTentative) \<or> \<not> IsV6UnicastAddress addr
      then enableDADLoop d rs s
      else
        case startDuplicateAddressDetection d addr r (setKind r permanentTentative s) of
          Inl a \<Rightarrow> Inl a
        | Inr (Some err, s1) \<Rightarrow> Inr (Some err, s1)
        | Inr (None, s1) \<Rightarrow> enableDADLoop d rs s1)"

definition enable :: "'n env \<Rightarrow> 'n NIC \<Rightarrow> abort + (tcpip_error option \<times> 'n NIC)" where
  "enable d s =
     (if enabled s then Inr (None, s)
      else
        let s1 = s\<lparr>enabled := True, attached := True\<rparr> in
        case (case networkProtocols d IPv4ProtocolNumber of
                None \<Rightarrow> Inr (None, s1)
              | Some netProto \<Rightarrow>
                  (case addAddressLocked d
                          \<lparr>Protocol = IPv4ProtocolNumber,
                           AddressWithPrefix =
                             \<lparr>Address = IPv4Broadcast, PrefixLen = 8 * IPv4AddressSize\<rparr>\<rparr>
                          NeverPrimaryEndpoint permanent static False s1 of
                     Inl a \<Rightarrow> Inl a
                   | Inr (Inl err, s2) \<Rightarrow> Inr (Some err, s2)
                   | Inr (Inr ref, s2) \<Rightarrow> Inr (None, s2))) of
          Inl a \<Rightarrow> Inl a
        | Inr (Some err, s2) \<Rightarrow> Inr (Some err, s2)
        | Inr (None, s2) \<Rightarrow>
            (case networkProtocols d IPv6ProtocolNumber of
               None \<Rightarrow> Inr (None, s2)
             | Some netProto \<Rightarrow>
                 (case enableDADLoop d (map snd (endpoints s2)) s2 of
                    Inl a \<Rightarrow> Inl a
                  | Inr (Some err, s3) \<Rightarrow> Inr (Some err, s3)
                  | Inr (None, s3) \<Rightarrow>
                      (case joinGroupLocked d IPv6ProtocolNumber IPv6AllNodesMulticastAddress s3 of
                         Inl a \<Rightarrow> Inl a
                       | Inr (Some err, s4) \<Rightarrow> Inr (Some err, s4)
                       | Inr (None, s4) \<Rightarrow>
                           (case (if autoGenIPv6LinkLocal d \<and> \<not> isLoopback d
                                  then doSLAAC d s4 else Inr s4) of
                              Inl a \<Rightarrow> Inl a
                            | Inr s5 \<Rightarrow>
                                (case (if \<not> forwarding d
                                       then startSolicitingRouters d s5 else Inr s5) of
                                   Inl a \<Rightarrow> Inl a
                                 | Inr s6 \<Rightarrow> Inr (None, s6)))))))"

subsection \<open>Receiving a packet\<close>

definition incRx :: "PacketBuffer \<Rightarrow> 'n NIC \<Rightarrow> 'n NIC" where
  "incRx pkt s =
     s\<lparr>stats := (stats s)\<lparr>Rx :=
          \<lparr>Packets = Packets (Rx (stats s)) + 1,
           Bytes = Bytes (Rx (stats s)) + of_nat (Size pkt)\<rparr>\<rparr>\<rparr>"

definition incDisabledRx :: "PacketBuffer \<Rightarrow> 'n NIC \<Rightarrow> 'n NIC" where
  "incDisabledRx pkt s =
     s\<lparr>stats := (stats s)\<lparr>DisabledRx :=
          \<lparr>Packets = Packets (DisabledRx (stats s)) + 1,
           Bytes = Bytes (DisabledRx (stats s)) + of_nat (Size pkt)\<rparr>\<rparr>\<rparr>"

definition packetEPsOf :: "'n NIC \<Rightarrow> NetworkProtocolNumber \<Rightarrow> PacketEndpoint list" where
  "packetEPsOf s proto = (case map_of (packetEPs s) proto of None \<Rightarrow> [] | Some l \<Rightarrow> l)"

text \<open>\<open>handlePacket\<close>: the endpoint of the cell gets the packet, then the reference is released.\<close>

definition handlePacket ::
  "NetworkProtocolNumber \<Rightarrow> Address \<Rightarrow> Address \<Rightarrow> LinkAddress \<Rightarrow> LinkAddress \<Rightarrow> ptr \<Rightarrow>
   PacketBuffer \<Rightarrow> 'n NIC \<Rightarrow> abort + 'n NIC" where
  "handlePacket proto dst src localLinkAddr remotelinkAddr ref pkt s =
     decRef ref
       (s\<lparr>delivered := delivered s @
            [\<lparr>dRef = ref, dProtocol = proto, dLocalAddress = dst, dRemoteAddress = src,
              dLocalLinkAddress = localLinkAddr, dRemoteLinkAddress = remotelinkAddr,
              dPacket = pkt\<rparr>]\<rparr>)"

text \<open>
  \<open>DeliverNetworkPacket\<close>. \<open>linkEPAddr\<close> is \<open>linkEP.LinkAddress()\<close> of the link endpoint
  the call is given; the branch that forwards the packet is the parameter
  \<open>forwardPacket\<close>.
\<close>

definition DeliverNetworkPacket ::
  "'n env \<Rightarrow> LinkAddress \<Rightarrow> LinkAddress \<Rightarrow> LinkAddress \<Rightarrow> NetworkProtocolNumber \<Rightarrow>
   PacketBuffer \<Rightarrow> 'n NIC \<Rightarrow> abort + 'n NIC" where
  "DeliverNetworkPacket d linkEPAddr remote local0 proto pkt s =
     (if \<not> enabled s then Inr (incDisabledRx pkt s)
      else
        let s1 = incRx pkt s in
        case networkProtocols d proto of
          None \<Rightarrow>
            Inr (s1\<lparr>stackStats := (stackStats s1)
                  \<lparr>UnknownProtocolRcvdPackets := UnknownProtocolRcvdPackets (stackStats s1) + 1\<rparr>\<rparr>)
        | Some netProto \<Rightarrow>
            let local = (if local0 = [] then linkAddress d else local0);
                eps = packetEPsOf s1 proto @
                        (if proto \<noteq> EthernetProtocolAll then packetEPsOf s1 EthernetProtocolAll
                         else []);
                s2 = s1\<lparr>observed := observed s1 @ map (\<lambda>e. (e, local, proto, pkt)) eps\<rparr>;
                s3 = (if Number netProto = IPv4ProtocolNumber \<or> Number netProto = IPv6ProtocolNumber
                      then s2\<lparr>stackStats := (stackStats s2)
                             \<lparr>PacketsReceived := PacketsReceived (stackStats s2) + 1\<rparr>\<rparr>
                      else s2)
            in if length (First_view pkt) < MinimumPacketSize netProto then
                 Inr (s3\<lparr>stackStats := (stackStats s3)
                       \<lparr>MalformedRcvdPackets := MalformedRcvdPackets (stackStats s3) + 1\<rparr>\<rparr>)
               else
                 case ParseAddresses netProto (First_view pkt) of
                   (src, dst) \<Rightarrow>
                     (case (if handleLocal d \<and> \<not> isLoopback d then getRef d proto src s3
                            else Inr (None, s3)) of
                        Inl a \<Rightarrow> Inl a
                      | Inr (Some own, s4) \<Rightarrow>
                          Inr (s4\<lparr>stackStats := (stackStats s4)
                                \<lparr>InvalidSourceAddressesReceived :=
                                   InvalidSourceAddressesReceived (stackStats s4) + 1\<rparr>\<rparr>)
                      | Inr (None, s4) \<Rightarrow>
                          (case getRef d proto dst s4 of
                             Inl a \<Rightarrow> Inl a
                           | Inr (Some ref, s5) \<Rightarrow>
                               handlePacket proto dst src linkEPAddr remote ref pkt s5
                           | Inr (None, s5) \<Rightarrow>
                               if forwarding d then forwardPacket d remote proto dst src pkt s5
                               else if length eps = 0 then
                                 Inr (s5\<lparr>stackStats := (stackStats s5)
                                       \<lparr>InvalidDestinationAddressesReceived :=
                                          InvalidDestinationAddressesReceived (stackStats s5) + 1\<rparr>\<rparr>)
                               else Inr s5)))"

subsection \<open>A new interface\<close>

text \<open>
  \<open>newNIC\<close>: disabled, with empty tables, and an empty observer list for every protocol
  in \<open>protos\<close>, which stands for \<open>header.Ethertypes\<close> followed by the protocols of the
  stack. No cell is allocated; \<open>nilCell\<close> fills the store.
\<close>

definition nilCell :: referencedNetworkEndpoint where
  "nilCell =
     \<lparr>ep = \<lparr>LocalAddress = [], epPrefixLen = 0, closed = False\<rparr>, protocol = 0,
      linkCache = False, refs = 0, kind = temporary, configType = static, deprecated = False\<rparr>"

definition newNIC :: "'n \<Rightarrow> NetworkProtocolNumber list \<Rightarrow> 'n NIC" where
  "newNIC n0 protos =
     \<lparr>enabled = False, attached = False, spoofing = False, promiscuous = False,
      primary = [], endpoints = [], addressRanges = [], mcastJoins = (\<lambda>a. 0),
      packetEPs = fold (\<lambda>p m. AList.update p [] m) protos [],
      ndp = n0,
      stats = \<lparr>Tx = \<lparr>Packets = 0, Bytes = 0\<rparr>, Rx = \<lparr>Packets = 0, Bytes = 0\<rparr>,
               DisabledRx = \<lparr>Packets = 0, Bytes = 0\<rparr>\<rparr>,
      cells = (\<lambda>r. nilCell), nextRef = 0,
      stackStats = \<lparr>UnknownProtocolRcvdPackets = 0, MalformedRcvdPackets = 0,
                    PacketsReceived = 0, InvalidSourceAddressesReceived = 0,
                    InvalidDestinationAddressesReceived = 0\<rparr>,
      observed = [], delivered = []\<rparr>"

subsection \<open>An example stack\<close>

text \<open>
  A stack to run the interface on: IPv4 and IPv6 are registered, endpoints are always
  made, a link-local IPv6 address (fe80::/10) has scope 0 and any other IPv6 address
  scope 2, the NDP operations and the forwarding do nothing. \<open>handleLocal\<close> is set and
  the link is not a loopback.
\<close>

definition exampleIPv4 :: NetworkProtocol where
  "exampleIPv4 =
     \<lparr>Number = IPv4ProtocolNumber, MinimumPacketSize = 20,
      ParseAddresses = (\<lambda>b. (take 4 (drop 12 b), take 4 (drop 16 b))),
      DefaultPrefixLen = 32, NewEndpointErr = (\<lambda>a. None)\<rparr>"

definition exampleIPv6 :: NetworkProtocol where
  "exampleIPv6 =
     \<lparr>Number = IPv6ProtocolNumber, MinimumPacketSize = 40,
      ParseAddresses = (\<lambda>b. (take 16 (drop 8 b), take 16 (drop 24 b))),
      DefaultPrefixLen = 128, NewEndpointErr = (\<lambda>a. None)\<rparr>"

definition exampleScope :: "Address \<Rightarrow> tcpip_error + nat" where
  "exampleScope a =
     (if length a \<noteq> IPv6AddressSize then Inl ErrBadAddress
      else if take 2 a = [CHR 0xFE, CHR 0x80] then Inr 0
      else Inr 2)"

definition exampleStack :: "unit env" where
  "exampleStack =
     \<lparr>networkProtocols =
        (\<lambda>p. if p = IPv4ProtocolNumber then Some exampleIPv4
              else if p = IPv6ProtocolNumber then Some exampleIPv6 else None),
      linkAddrResolvers = (\<lambda>p. False),
      handleLocal = True, forwarding = False, autoGenIPv6LinkLocal = False,
      CapabilityLoopback = False, CapabilityResolutionRequired = False,
      linkAddress = [CHR 0x02, CHR 0x00, CHR 0x00, CHR 0x00, CHR 0x00, CHR 0x01],
      ScopeForIPv6Address = exampleScope,
      startDuplicateAddressDetection = (\<lambda>a r s. Inr (None, s)),
      stopDuplicateAddressDetection = (\<lambda>a s. Inr s),
      cleanupAutoGenAddrResourcesAndNotify = (\<lambda>a s. Inr s),
      doSLAAC = (\<lambda>s. Inr s),
      startSolicitingRouters = (\<lambda>s. Inr s),
      forwardPacket = (\<lambda>remote proto dst src pkt s. Inr s)\<rparr>"

definition exampleNIC :: "unit NIC" where
  "exampleNIC = newNIC () [IPv4ProtocolNumber, IPv6ProtocolNumber]"

text \<open>A cell for an address, with one reference.\<close>

definition cellFor ::
  "NetworkProtocolNumber \<Rightarrow> Address \<Rightarrow> int \<Rightarrow> networkEndpointKind \<Rightarrow> bool \<Rightarrow>
   referencedNetworkEndpoint" where
  "cellFor proto a plen k dep =
     \<lparr>ep = \<lparr>LocalAddress = a, epPrefixLen = plen, closed = False\<rparr>, protocol = proto,
      linkCache = False, refs = 1, kind = k, configType = static, deprecated = dep\<rparr>"

definition addr_10_0_0_1 :: Address where
  "addr_10_0_0_1 = [CHR 0x0A, CHR 0x00, CHR 0x00, CHR 0x01]"

definition addr_10_0_0_2 :: Address where
  "addr_10_0_0_2 = [CHR 0x0A, CHR 0x00, CHR 0x00, CHR 0x02]"

text \<open>
  An interface whose table holds 10.0.0.1 alone, in cell 0 with one reference and the
  kind \<open>k\<close>, first and only in the IPv4 primary list.
\<close>

definition nicOne :: "networkEndpointKind \<Rightarrow> unit NIC" where
  "nicOne k =
     exampleNIC\<lparr>endpoints := [(addr_10_0_0_1, 0)],
                primary := [(IPv4ProtocolNumber, [0])],
                cells := (\<lambda>r. nilCell)(0 := cellFor IPv4ProtocolNumber addr_10_0_0_1 32 k False),
                nextRef := 1\<rparr>"

text \<open>
  An interface whose table holds 10.0.0.1 in cell 0, of kind \<open>k\<close>, and 10.0.0.2 in cell
  1, permanent; the IPv4 primary list is cell 0, then cell 1.
\<close>

definition nicTwo :: "networkEndpointKind \<Rightarrow> unit NIC" where
  "nicTwo k =
     exampleNIC\<lparr>endpoints := [(addr_10_0_0_1, 0), (addr_10_0_0_2, 1)],
                primary := [(IPv4ProtocolNumber, [0, 1])],
                cells := (\<lambda>r. nilCell)
                  (0 := cellFor IPv4ProtocolNumber addr_10_0_0_1 32 k False,
                   1 := cellFor IPv4ProtocolNumber addr_10_0_0_2 32 permanent False),
                nextRef := 2\<rparr>"

text \<open>An interface whose table holds 10.0.0.2 alone, permanent, in cell 1.\<close>

definition nicSecond :: "unit NIC" where
  "nicSecond =
     exampleNIC\<lparr>endpoints := [(addr_10_0_0_2, 1)],
                primary := [(IPv4ProtocolNumber, [1])],
                cells := (\<lambda>r. nilCell)
                  (1 := cellFor IPv4ProtocolNumber addr_10_0_0_2 32 permanent False),
                nextRef := 2\<rparr>"

definition addr_fe80_1 :: Address where
  "addr_fe80_1 =
     [CHR 0xFE, CHR 0x80, CHR 0x00, CHR 0x00, CHR 0x00, CHR 0x00, CHR 0x00, CHR 0x00,
      CHR 0x00, CHR 0x00, CHR 0x00, CHR 0x00, CHR 0x00, CHR 0x00, CHR 0x00, CHR 0x01]"

text \<open>The address 2001:db8:: with the last byte \<open>b\<close>.\<close>

definition addr_2001_db8 :: "char \<Rightarrow> Address" where
  "addr_2001_db8 b =
     [CHR 0x20, CHR 0x01, CHR 0x0D, CHR 0xB8, CHR 0x00, CHR 0x00, CHR 0x00, CHR 0x00,
      CHR 0x00, CHR 0x00, CHR 0x00, CHR 0x00, CHR 0x00, CHR 0x00, CHR 0x00, b]"

text \<open>
  An interface whose IPv6 primary list is fe80::1 (cell 0), 2001:db8::2 (cell 1,
  deprecated) and 2001:db8::3 (cell 2), all permanent with one reference.
\<close>

definition nicThreeV6 :: "unit NIC" where
  "nicThreeV6 =
     exampleNIC\<lparr>endpoints := [(addr_fe80_1, 0), (addr_2001_db8 (CHR 0x02), 1),
                              (addr_2001_db8 (CHR 0x03), 2)],
                primary := [(IPv6ProtocolNumber, [0, 1, 2])],
                cells := (\<lambda>r. nilCell)
                  (0 := cellFor IPv6ProtocolNumber addr_fe80_1 64 permanent False,
                   1 := cellFor IPv6ProtocolNumber (addr_2001_db8 (CHR 0x02)) 64 permanent True,
                   2 := cellFor IPv6ProtocolNumber (addr_2001_db8 (CHR 0x03)) 64 permanent False),
                nextRef := 3\<rparr>"

definition addr_224_0_0_1 :: Address where
  "addr_224_0_0_1 = [CHR 0xE0, CHR 0x00, CHR 0x00, CHR 0x01]"

subsection \<open>Sequences of calls\<close>

text \<open>
  The same call made \<open>n\<close> times, each on the interface the call before left; the
  sequence stops at the first call that aborts or returns an error.
\<close>

fun repeatOp ::
  "('s \<Rightarrow> abort + (tcpip_error option \<times> 's)) \<Rightarrow> nat \<Rightarrow> 's \<Rightarrow>
   abort + (tcpip_error option \<times> 's)" where
  "repeatOp f 0 s = Inr (None, s)"
| "repeatOp f (Suc n) s =
     (case f s of
        Inl a \<Rightarrow> Inl a
      | Inr (Some err, s1) \<Rightarrow> Inr (Some err, s1)
      | Inr (None, s1) \<Rightarrow> repeatOp f n s1)"

text \<open>
  The group \<open>addr\<close> is joined \<open>k\<close> times and backed by the cell \<open>r\<close>: the join count is
  \<open>k\<close> as an \<open>int32\<close>, the table maps the address to the cell, and the cell is
  permanent with its one reference.
\<close>

definition groupJoined ::
  "Address \<Rightarrow> ptr \<Rightarrow> NetworkProtocolNumber \<Rightarrow> nat \<Rightarrow> 'n NIC \<Rightarrow> bool" where
  "groupJoined addr r proto k s =
     (map_of (endpoints s) addr = Some r \<and> mcastJoins s addr = of_nat k \<and>
      kind (cells s r) = permanent \<and> refs (cells s r) = 1 \<and>
      LocalAddress (ep (cells s r)) = addr \<and> protocol (cells s r) = proto)"

text \<open>
  A packet for the example IPv4: its first view has 20 bytes, the source address at byte
  12 and the destination address at byte 16.
\<close>

definition headerFor :: "Address \<Rightarrow> Address \<Rightarrow> PacketBuffer" where
  "headerFor src dst = \<lparr>Data = [replicate 12 (CHR 0x00) @ src @ dst]\<rparr>"

subsection \<open>The broadcast entry\<close>

text \<open>
  The table holds the IPv4 limited broadcast address in the cell \<open>r\<close>, an allocated
  cell: an IPv4 endpoint for that address with prefix length 32, permanent, static, and
  not in the IPv4 primary list.
\<close>

definition broadcastEntry :: "ptr \<Rightarrow> 'n NIC \<Rightarrow> bool" where
  "broadcastEntry r s =
     (map_of (endpoints s) IPv4Broadcast = Some r \<and> r < nextRef s \<and>
      LocalAddress (ep (cells s r)) = IPv4Broadcast \<and> epPrefixLen (ep (cells s r)) = 32 \<and>
      protocol (cells s r) = IPv4ProtocolNumber \<and> kind (cells s r) = permanent \<and>
      configType (cells s r) = static \<and> r \<notin> set (primaryOf s IPv4ProtocolNumber))"

section \<open>Properties\<close>

subsection \<open>Adding an address that is already there\<close>

text \<open>
  C4: for an address that the table already holds, \<open>addAddressLocked\<close> returns
  \<open>ErrDuplicateAddress\<close> whenever the requested kind is not permanent, and whenever the
  entry it finds is permanent or tentative; the interface it leaves is the interface it
  was given: table, primary lists and the cell found are unchanged.
\<close>

theorem addAddressLocked_duplicate:
  assumes "map_of (endpoints s) (Address (AddressWithPrefix protocolAddress)) = Some ref"
    and "knd \<noteq> permanent \<or> getKind s ref = permanent \<or> getKind s ref = permanentTentative"
  shows "addAddressLocked d protocolAddress peb knd cfg dep s = Inr (Inl ErrDuplicateAddress, s)"
  using assms
  by (auto simp: addAddressLocked.simps [of d protocolAddress peb knd cfg dep s])

theorem addAddressLocked_duplicate_witness:
  "map_of (endpoints (nicOne permanent)) addr_10_0_0_1 = Some 0 \<and>
   getKind (nicOne permanent) 0 = permanent \<and>
   addAddressLocked exampleStack
     \<lparr>Protocol = IPv4ProtocolNumber,
      AddressWithPrefix = \<lparr>Address = addr_10_0_0_1, PrefixLen = 24\<rparr>\<rparr>
     FirstPrimaryEndpoint permanent slaac True (nicOne permanent) =
   Inr (Inl ErrDuplicateAddress, nicOne permanent)"
  using addAddressLocked_duplicate [of "nicOne permanent"
      "\<lparr>Protocol = IPv4ProtocolNumber,
        AddressWithPrefix = \<lparr>Address = addr_10_0_0_1, PrefixLen = 24\<rparr>\<rparr>"
      0 permanent exampleStack FirstPrimaryEndpoint slaac True]
  by (simp add: nicOne_def exampleNIC_def newNIC_def cellFor_def getKind_def)

subsection \<open>Enumerating the addresses\<close>

lemma AllAddressesLoop_eq:
  "AllAddressesLoop s xs acc =
     acc @ map (\<lambda>(nid, ref). \<lparr>Protocol = protocol (cells s ref),
                       AddressWithPrefix =
                         \<lparr>Address = nid, PrefixLen = epPrefixLen (ep (cells s ref))\<rparr>\<rparr>)
        (filter (\<lambda>(nid, ref). getKind s ref \<noteq> permanentExpired \<and> getKind s ref \<noteq> temporary) xs)"
  by (induction xs arbitrary: acc) (auto split: networkEndpointKind.splits)

lemma PrimaryAddressesInner_eq:
  "PrimaryAddressesInner s proto l acc =
     acc @ map (\<lambda>ref. \<lparr>Protocol = proto, AddressWithPrefix = addressOf s ref\<rparr>)
        (filter (\<lambda>ref. getKind s ref \<noteq> permanentExpired \<and> getKind s ref \<noteq> temporary \<and>
                        getKind s ref \<noteq> permanentTentative) l)"
  by (induction l arbitrary: acc) (auto simp: addressOf_def split: networkEndpointKind.splits)

lemma PrimaryAddressesLoop_eq:
  "PrimaryAddressesLoop s xs acc =
     acc @ concat (map (\<lambda>(proto, l).
         map (\<lambda>ref. \<lparr>Protocol = proto, AddressWithPrefix = addressOf s ref\<rparr>)
           (filter (\<lambda>ref. getKind s ref \<noteq> permanentExpired \<and> getKind s ref \<noteq> temporary \<and>
                           getKind s ref \<noteq> permanentTentative) l)) xs)"
  by (induction xs arbitrary: acc) (auto simp: PrimaryAddressesInner_eq)

lemma primaryAddressLoop_eq:
  "primaryAddressLoop s l dep =
     (case filter (\<lambda>ref. (getKind s ref \<noteq> permanentExpired \<and> getKind s ref \<noteq> temporary \<and>
                           getKind s ref \<noteq> permanentTentative) \<and> \<not> deprecated (cells s ref)) l of
        ref # rest \<Rightarrow> Inl (addressOf s ref)
      | [] \<Rightarrow>
          Inr (case dep of
                 Some de \<Rightarrow> Some de
               | None \<Rightarrow>
                   (case filter (\<lambda>ref. getKind s ref \<noteq> permanentExpired \<and>
                                        getKind s ref \<noteq> temporary \<and>
                                        getKind s ref \<noteq> permanentTentative) l of
                      ref # rest \<Rightarrow> Some ref
                    | [] \<Rightarrow> None)))"
  by (induction l arbitrary: dep)
     (auto split: networkEndpointKind.splits list.splits option.splits)

text \<open>
  C6: in every state, \<open>AllAddresses\<close> returns exactly the entries of the table whose kind
  is neither \<open>permanentExpired\<close> nor \<open>temporary\<close> (so the tentative ones are returned);
  \<open>PrimaryAddresses\<close> returns exactly the cells of the primary lists whose kind is none of
  \<open>permanentExpired\<close>, \<open>temporary\<close> and \<open>permanentTentative\<close>; and \<open>primaryAddress\<close>
  answers from those cells only: the first of them that is not deprecated, else the
  first of them, else the empty value.
\<close>

theorem enumerations_exclude_kinds:
  "AllAddresses s =
     map (\<lambda>(nid, ref). \<lparr>Protocol = protocol (cells s ref),
                         AddressWithPrefix =
                           \<lparr>Address = nid, PrefixLen = epPrefixLen (ep (cells s ref))\<rparr>\<rparr>)
       (filter (\<lambda>(nid, ref). getKind s ref \<noteq> permanentExpired \<and> getKind s ref \<noteq> temporary)
          (endpoints s)) \<and>
   PrimaryAddresses s =
     concat (map (\<lambda>(proto, l).
         map (\<lambda>ref. \<lparr>Protocol = proto, AddressWithPrefix = addressOf s ref\<rparr>)
           (filter (\<lambda>ref. getKind s ref \<noteq> permanentExpired \<and> getKind s ref \<noteq> temporary \<and>
                           getKind s ref \<noteq> permanentTentative) l)) (primary s)) \<and>
   primaryAddress s proto =
     (case filter (\<lambda>ref. (getKind s ref \<noteq> permanentExpired \<and> getKind s ref \<noteq> temporary \<and>
                           getKind s ref \<noteq> permanentTentative) \<and> \<not> deprecated (cells s ref))
             (primaryOf s proto) of
        ref # rest \<Rightarrow> addressOf s ref
      | [] \<Rightarrow>
          (case filter (\<lambda>ref. getKind s ref \<noteq> permanentExpired \<and> getKind s ref \<noteq> temporary \<and>
                               getKind s ref \<noteq> permanentTentative) (primaryOf s proto) of
             ref # rest \<Rightarrow> addressOf s ref
           | [] \<Rightarrow> \<lparr>Address = [], PrefixLen = 0\<rparr>))"
proof (intro conjI)
  show "AllAddresses s =
     map (\<lambda>(nid, ref). \<lparr>Protocol = protocol (cells s ref),
                         AddressWithPrefix =
                           \<lparr>Address = nid, PrefixLen = epPrefixLen (ep (cells s ref))\<rparr>\<rparr>)
       (filter (\<lambda>(nid, ref). getKind s ref \<noteq> permanentExpired \<and> getKind s ref \<noteq> temporary)
          (endpoints s))"
    by (simp add: AllAddresses_def AllAddressesLoop_eq)
next
  show "PrimaryAddresses s =
     concat (map (\<lambda>(proto, l).
         map (\<lambda>ref. \<lparr>Protocol = proto, AddressWithPrefix = addressOf s ref\<rparr>)
           (filter (\<lambda>ref. getKind s ref \<noteq> permanentExpired \<and> getKind s ref \<noteq> temporary \<and>
                           getKind s ref \<noteq> permanentTentative) l)) (primary s))"
    by (simp add: PrimaryAddresses_def PrimaryAddressesLoop_eq)
next
  show "primaryAddress s proto =
     (case filter (\<lambda>ref. (getKind s ref \<noteq> permanentExpired \<and> getKind s ref \<noteq> temporary \<and>
                           getKind s ref \<noteq> permanentTentative) \<and> \<not> deprecated (cells s ref))
             (primaryOf s proto) of
        ref # rest \<Rightarrow> addressOf s ref
      | [] \<Rightarrow>
          (case filter (\<lambda>ref. getKind s ref \<noteq> permanentExpired \<and> getKind s ref \<noteq> temporary \<and>
                               getKind s ref \<noteq> permanentTentative) (primaryOf s proto) of
             ref # rest \<Rightarrow> addressOf s ref
           | [] \<Rightarrow> \<lparr>Address = [], PrefixLen = 0\<rparr>))"
    by (simp add: primaryAddress_def primaryOf_def primaryAddressLoop_eq
             split: option.splits list.splits)
qed

subsection \<open>A packet for a disabled interface\<close>

text \<open>
  C7: a packet delivered to a disabled interface increments the packet and byte counters
  of \<open>DisabledRx\<close> and nothing else: the call returns the interface it was given with
  those two counters changed, so \<open>Rx\<close>, the observer log, the table and the rest are as
  before.
\<close>

theorem DeliverNetworkPacket_disabled:
  assumes "\<not> enabled s"
  shows "DeliverNetworkPacket d linkEPAddr remote local0 proto pkt s =
           Inr (s\<lparr>stats := (stats s)\<lparr>DisabledRx :=
                  \<lparr>Packets = Packets (DisabledRx (stats s)) + 1,
                   Bytes = Bytes (DisabledRx (stats s)) + of_nat (Size pkt)\<rparr>\<rparr>\<rparr>)"
  using assms by (simp add: DeliverNetworkPacket_def incDisabledRx_def)

theorem DeliverNetworkPacket_disabled_witness:
  "\<not> enabled exampleNIC \<and>
   DeliverNetworkPacket exampleStack [] [] [] IPv4ProtocolNumber \<lparr>Data = [''abc'', ''de'']\<rparr>
       exampleNIC =
     Inr (exampleNIC\<lparr>stats :=
            \<lparr>Tx = \<lparr>Packets = 0, Bytes = 0\<rparr>, Rx = \<lparr>Packets = 0, Bytes = 0\<rparr>,
             DisabledRx = \<lparr>Packets = 1, Bytes = 5\<rparr>\<rparr>\<rparr>)"
  using DeliverNetworkPacket_disabled [of exampleNIC exampleStack "[]" "[]" "[]"
      IPv4ProtocolNumber "\<lparr>Data = [''abc'', ''de'']\<rparr>"]
  by (simp add: exampleNIC_def newNIC_def Size_def)

subsection \<open>Removing a cell\<close>

text \<open>
  C9: \<open>removeEndpointLocked\<close> changes nothing when the table does not map the address of
  the cell to that cell; it panics when it does and the kind of the cell is still
  \<open>permanent\<close>; and for a cell whose kind is not \<open>permanent\<close> it does not panic: it
  returns, and the table then does not map the address to the cell.
\<close>

theorem removeEndpointLocked_cases:
  "(map_of (endpoints s) (LocalAddress (ep (cells s r))) \<noteq> Some r \<longrightarrow>
      removeEndpointLocked r s = Inr s) \<and>
   (map_of (endpoints s) (LocalAddress (ep (cells s r))) = Some r \<and> getKind s r = permanent \<longrightarrow>
      removeEndpointLocked r s =
        Inl (Panic ''Reference count dropped to zero before being removed'')) \<and>
   (getKind s r \<noteq> permanent \<longrightarrow>
      (\<exists>s'. removeEndpointLocked r s = Inr s' \<and>
            map_of (endpoints s') (LocalAddress (ep (cells s r))) \<noteq> Some r))"
  by (auto simp: removeEndpointLocked_def Let_def closeEndpoint_def setPrimary_def
           AList.delete_conv split: option.splits)

theorem removeEndpointLocked_cases_witness:
  "removeEndpointLocked 1 (nicOne permanent) = Inr (nicOne permanent) \<and>
   removeEndpointLocked 0 (nicOne permanent) =
     Inl (Panic ''Reference count dropped to zero before being removed'') \<and>
   (\<exists>s'. removeEndpointLocked 0 (nicOne permanentExpired) = Inr s' \<and>
         map_of (endpoints s') addr_10_0_0_1 \<noteq> Some 0)"
  using removeEndpointLocked_cases [of "nicOne permanent" 1]
    removeEndpointLocked_cases [of "nicOne permanent" 0]
    removeEndpointLocked_cases [of "nicOne permanentExpired" 0]
  by (simp add: nicOne_def exampleNIC_def newNIC_def cellFor_def getKind_def nilCell_def)

subsection \<open>Looking up a tentative address\<close>

lemma getRefOrCreateTemp_tentative_ref:
  assumes "map_of (endpoints s) address = Some ref"
    and "getKind s ref = permanentTentative"
    and "refs (cells s ref) \<noteq> 0"
    and "(case tempRef of spoofingRef \<Rightarrow> spoofing s | promiscuousRef \<Rightarrow> promiscuous s
          | forceSpoofingRef \<Rightarrow> True) \<or> inAddressRanges address (addressRanges s)"
  shows "getRefOrCreateTemp d proto address peb tempRef s =
           Inr (Some ref,
                s\<lparr>cells := (cells s)(ref := (cells s ref)\<lparr>refs := refs (cells s ref) + 1\<rparr>)\<rparr>)"
  using assms
  by (auto simp: getRefOrCreateTemp_def tryIncRef_def Let_def split: getRefBehaviour.splits)

lemma DeliverNetworkPacket_tentative_delivered:
  assumes "map_of (endpoints s) dst = Some ref"
    and "getKind s ref = permanentTentative"
    and "refs (cells s ref) \<noteq> 0"
    and "promiscuous s"
    and "enabled s"
    and "networkProtocols d proto = Some netProto"
    and "MinimumPacketSize netProto \<le> length (First_view pkt)"
    and "ParseAddresses netProto (First_view pkt) = (src, dst)"
    and "\<not> handleLocal d \<or> isLoopback d"
  shows "\<exists>s'. DeliverNetworkPacket d linkEPAddr remote local0 proto pkt s = Inr s' \<and>
           delivered s' = delivered s @
            [\<lparr>dRef = ref, dProtocol = proto, dLocalAddress = dst, dRemoteAddress = src,
              dLocalLinkAddress = linkEPAddr, dRemoteLinkAddress = remote, dPacket = pkt\<rparr>]"
proof -
  have g: "getRef d proto dst t =
             Inr (Some ref,
                  t\<lparr>cells := (cells t)(ref := (cells t ref)\<lparr>refs := refs (cells t ref) + 1\<rparr>)\<rparr>)"
    if "endpoints t = endpoints s" "cells t = cells s" "promiscuous t = promiscuous s" for t
    unfolding getRef_def
    by (rule getRefOrCreateTemp_tentative_ref) (use assms that in \<open>auto simp: getKind_def\<close>)
  show ?thesis
    using assms
    by (auto simp: DeliverNetworkPacket_def Let_def g incRx_def handlePacket_def decRef_def
        removeEndpoint_def)
qed

text \<open>
  C10: when the table holds a tentative entry for an address, with a reference count
  that is not zero, and a temporary entry may be made (the flag that the mode selects is
  set, or an address range holds the address), \<open>getRefOrCreateTemp\<close> returns that very
  cell with its count incremented, and makes no cell. So an enabled, promiscuous
  interface hands a packet for a tentative address to the endpoint of that address
  (here when the source check is off: \<open>handleLocal\<close> unset, or a loopback link).
\<close>

theorem getRefOrCreateTemp_tentative:
  assumes "map_of (endpoints s) address = Some ref"
    and "getKind s ref = permanentTentative"
    and "refs (cells s ref) \<noteq> 0"
  shows "((case tempRef of spoofingRef \<Rightarrow> spoofing s | promiscuousRef \<Rightarrow> promiscuous s
           | forceSpoofingRef \<Rightarrow> True) \<or> inAddressRanges address (addressRanges s) \<longrightarrow>
          getRefOrCreateTemp d proto address peb tempRef s =
            Inr (Some ref,
                 s\<lparr>cells := (cells s)(ref := (cells s ref)\<lparr>refs := refs (cells s ref) + 1\<rparr>)\<rparr>)) \<and>
         (promiscuous s \<and> enabled s \<and> networkProtocols d proto = Some netProto \<and>
          MinimumPacketSize netProto \<le> length (First_view pkt) \<and>
          ParseAddresses netProto (First_view pkt) = (src, address) \<and>
          (\<not> handleLocal d \<or> isLoopback d) \<longrightarrow>
          (\<exists>s'. DeliverNetworkPacket d linkEPAddr remote local0 proto pkt s = Inr s' \<and>
             delivered s' = delivered s @
               [\<lparr>dRef = ref, dProtocol = proto, dLocalAddress = address, dRemoteAddress = src,
                 dLocalLinkAddress = linkEPAddr, dRemoteLinkAddress = remote,
                 dPacket = pkt\<rparr>]))"
  using getRefOrCreateTemp_tentative_ref [OF assms]
    DeliverNetworkPacket_tentative_delivered [OF assms]
  by blast

theorem getRefOrCreateTemp_tentative_witness:
  "getRefOrCreateTemp (exampleStack\<lparr>handleLocal := False\<rparr>) IPv4ProtocolNumber addr_10_0_0_1
       CanBePrimaryEndpoint promiscuousRef
       ((nicOne permanentTentative)\<lparr>enabled := True, promiscuous := True\<rparr>) =
     Inr (Some 0,
          (nicOne permanentTentative)
            \<lparr>enabled := True, promiscuous := True,
             cells := (\<lambda>r. nilCell)
               (0 := (cellFor IPv4ProtocolNumber addr_10_0_0_1 32 permanentTentative False)
                       \<lparr>refs := 2\<rparr>)\<rparr>) \<and>
   (\<exists>s'. DeliverNetworkPacket (exampleStack\<lparr>handleLocal := False\<rparr>) ''link'' ''peer'' []
            IPv4ProtocolNumber (headerFor addr_10_0_0_2 addr_10_0_0_1)
            ((nicOne permanentTentative)\<lparr>enabled := True, promiscuous := True\<rparr>) = Inr s' \<and>
          delivered s' =
            [\<lparr>dRef = 0, dProtocol = IPv4ProtocolNumber, dLocalAddress = addr_10_0_0_1,
              dRemoteAddress = addr_10_0_0_2, dLocalLinkAddress = ''link'',
              dRemoteLinkAddress = ''peer'',
              dPacket = headerFor addr_10_0_0_2 addr_10_0_0_1\<rparr>])"
  using getRefOrCreateTemp_tentative
    [of "(nicOne permanentTentative)\<lparr>enabled := True, promiscuous := True\<rparr>"
        addr_10_0_0_1 0 promiscuousRef "exampleStack\<lparr>handleLocal := False\<rparr>"
        IPv4ProtocolNumber CanBePrimaryEndpoint exampleIPv4
        "headerFor addr_10_0_0_2 addr_10_0_0_1" addr_10_0_0_2 "''link''" "''peer''" "[]"]
  by (simp add: nicOne_def exampleNIC_def newNIC_def cellFor_def getKind_def
      exampleStack_def exampleIPv4_def headerFor_def First_view_def
      addr_10_0_0_1_def addr_10_0_0_2_def)

subsection \<open>The source check of the receive path\<close>

text \<open>
  C2: the lookup that \<open>DeliverNetworkPacket\<close> makes of the source address, run on the
  example stack (\<open>handleLocal\<close> set, no loopback). A packet from 10.0.0.1, an address of
  the interface held with one reference, is dropped as an invalid source and leaves the
  cell with two references; on a promiscuous interface a packet from 10.0.0.2, an
  address the table does not hold, is dropped the same way and leaves a temporary entry
  for 10.0.0.2 in the table.
\<close>

theorem DeliverNetworkPacket_source_lookup_keeps_reference:
  "(\<exists>s'. DeliverNetworkPacket exampleStack [] [] [] IPv4ProtocolNumber
            (headerFor addr_10_0_0_1 addr_10_0_0_2) ((nicOne permanent)\<lparr>enabled := True\<rparr>) =
          Inr s' \<and>
        refs (cells ((nicOne permanent)\<lparr>enabled := True\<rparr>) 0) = 1 \<and>
        refs (cells s' 0) = 2 \<and>
        InvalidSourceAddressesReceived (stackStats s') = 1 \<and> delivered s' = []) \<and>
   (\<exists>s'. DeliverNetworkPacket exampleStack [] [] [] IPv4ProtocolNumber
            (headerFor addr_10_0_0_2 addr_10_0_0_1)
            ((nicOne permanent)\<lparr>enabled := True, promiscuous := True\<rparr>) = Inr s' \<and>
        map_of (endpoints ((nicOne permanent)\<lparr>enabled := True, promiscuous := True\<rparr>))
          addr_10_0_0_2 = None \<and>
        map_of (endpoints s') addr_10_0_0_2 = Some 1 \<and>
        kind (cells s' 1) = temporary \<and> refs (cells s' 1) = 1 \<and>
        InvalidSourceAddressesReceived (stackStats s') = 1 \<and> delivered s' = [])"
  by (simp add: DeliverNetworkPacket_def Let_def getRef_def getRefOrCreateTemp_def tryIncRef_def
       nicOne_def exampleNIC_def newNIC_def cellFor_def getKind_def nilCell_def incRx_def
       exampleStack_def exampleIPv4_def headerFor_def First_view_def isLoopback_def
       addr_10_0_0_1_def addr_10_0_0_2_def packetEPsOf_def IPv4ProtocolNumber_def
       IPv6ProtocolNumber_def EthernetProtocolAll_def addAddressLocked.simps
       insertPrimaryEndpointLocked_def setPrimary_def primaryOf_def IsV6UnicastAddress_def)

subsection \<open>Promoting a temporary entry\<close>

lemma primaryOf_setPrimary:
  "primaryOf (setPrimary proto l s) proto' = (if proto' = proto then l else primaryOf s proto')"
  by (simp add: primaryOf_def setPrimary_def update_conv')

lemma cells_setPrimary: "cells (setPrimary proto l s) = cells s"
  by (simp add: setPrimary_def)

lemma endpoints_setPrimary: "endpoints (setPrimary proto l s) = endpoints s"
  by (simp add: setPrimary_def)

lemma promoteLoop_absent:
  "ref \<notin> set (drop i arr) \<Longrightarrow> promoteLoop ref peb arr i s = (False, s)"
proof (induction "length arr - i" arbitrary: i)
  case 0
  then show ?case by (simp add: promoteLoop.simps [of ref peb arr i s])
next
  case (Suc n)
  then have lt: "i < length arr" by simp
  then have "arr ! i \<in> set (drop i arr)"
    by (metis Cons_nth_drop_Suc list.set_intros(1))
  with Suc.prems have ne: "arr ! i \<noteq> ref" by auto
  have "set (drop (Suc i) arr) \<subseteq> set (drop i arr)"
    by (metis drop_Suc set_drop_subset tl_drop drop_drop plus_1_eq_Suc)
  with Suc.prems have "ref \<notin> set (drop (Suc i) arr)" by auto
  moreover from Suc.hyps(2) have "n = length arr - Suc i" by simp
  ultimately have "promoteLoop ref peb arr (Suc i) s = (False, s)"
    using Suc.hyps(1) by blast
  with lt ne show ?case by (simp add: promoteLoop.simps [of ref peb arr i s])
qed

lemma promoteLoop_shifted_tail:
  assumes "j < length arr" and "ref \<notin> set (drop (Suc j) arr)"
  shows "ref \<notin> set (drop (Suc j) (take j arr @ drop (Suc j) arr @ [last arr]))"
proof (cases "drop (Suc j) arr = []")
  case True
  with assms show ?thesis by simp
next
  case False
  then have "last arr \<in> set (drop (Suc j) arr)"
    by (metis last_drop last_in_set drop_eq_Nil not_le)
  moreover have "set (drop (Suc 0) (drop (Suc j) arr)) \<subseteq> set (drop (Suc j) arr)"
    by (rule set_drop_subset)
  ultimately show ?thesis using assms False by (auto simp: min_def)
qed

lemma promoteLoop_at:
  assumes "j < length arr" and "arr ! j = ref" and "ref \<notin> set (drop (Suc j) arr)"
  shows "promoteLoop ref peb arr j s =
     (case peb of
        CanBePrimaryEndpoint \<Rightarrow> (True, s)
      | FirstPrimaryEndpoint \<Rightarrow>
          if j = 0 then (True, s)
          else (False, setPrimary (protocol (cells s ref)) (take j arr @ drop (Suc j) arr) s)
      | NeverPrimaryEndpoint \<Rightarrow>
          (True, setPrimary (protocol (cells s ref)) (take j arr @ drop (Suc j) arr) s))"
proof -
  note rest = promoteLoop_absent [OF promoteLoop_shifted_tail [OF assms(1,3)]]
  show ?thesis
    using assms(1,2)
    by (simp add: promoteLoop.simps [of ref peb arr j s] rest
        split: PrimaryEndpointBehavior.splits)
qed

lemma promoteLoop_first:
  assumes "i \<le> j" and "j < length arr" and "arr ! j = ref"
    and "ref \<notin> set (drop (Suc j) arr)" and "\<forall>k. i \<le> k \<and> k < j \<longrightarrow> arr ! k \<noteq> ref"
  shows "promoteLoop ref peb arr i s = promoteLoop ref peb arr j s"
  using assms
proof (induction "j - i" arbitrary: i)
  case 0
  then show ?case by simp
next
  case (Suc n)
  then have "i < j" by simp
  with Suc.prems have ne: "arr ! i \<noteq> ref" and lt: "i < length arr" by auto
  have "promoteLoop ref peb arr (Suc i) s = promoteLoop ref peb arr j s"
    using Suc.hyps(1) [of "Suc i"] Suc.hyps(2) Suc.prems \<open>i < j\<close> by auto
  with ne lt show ?case by (simp add: promoteLoop.simps [of ref peb arr i s])
qed

lemma remove1_first:
  "j < length arr \<Longrightarrow> arr ! j = ref \<Longrightarrow> \<forall>k<j. arr ! k \<noteq> ref \<Longrightarrow>
   remove1 ref arr = take j arr @ drop (Suc j) arr"
proof (induction arr arbitrary: j)
  case Nil
  then show ?case by simp
next
  case (Cons a arr)
  show ?case
  proof (cases j)
    case 0
    with Cons.prems show ?thesis by simp
  next
    case (Suc m)
    with Cons.prems have "a \<noteq> ref" by fastforce
    moreover have "remove1 ref arr = take m arr @ drop (Suc m) arr"
      using Cons.prems Suc by (intro Cons.IH) fastforce+
    ultimately show ?thesis using Suc by simp
  qed
qed

lemma promoteLoop_distinct:
  assumes "distinct arr"
  shows "promoteLoop ref peb arr 0 s =
     (if ref \<in> set arr then
        (case peb of
           CanBePrimaryEndpoint \<Rightarrow> (True, s)
         | FirstPrimaryEndpoint \<Rightarrow>
             if hd arr = ref then (True, s)
             else (False, setPrimary (protocol (cells s ref)) (remove1 ref arr) s)
         | NeverPrimaryEndpoint \<Rightarrow>
             (True, setPrimary (protocol (cells s ref)) (remove1 ref arr) s))
      else (False, s))"
proof (cases "ref \<in> set arr")
  case False
  then show ?thesis by (simp add: promoteLoop_absent)
next
  case True
  then obtain j where j: "j < length arr" "arr ! j = ref"
    by (auto simp: in_set_conv_nth)
  have others: "k < length arr \<Longrightarrow> k \<noteq> j \<Longrightarrow> arr ! k \<noteq> ref" for k
    using assms j by (auto simp: distinct_conv_nth)
  have before: "\<forall>k<j. arr ! k \<noteq> ref" using others j by auto
  have after: "ref \<notin> set (drop (Suc j) arr)"
    using others j by (auto simp: in_set_conv_nth)
  have hd: "(hd arr = ref) = (j = 0)"
    using j others [of 0] by (cases arr) auto
  have "promoteLoop ref peb arr 0 s = promoteLoop ref peb arr j s"
    by (rule promoteLoop_first) (use j before after in auto)
  then show ?thesis
    using True promoteLoop_at [OF j after, of peb s] remove1_first [OF j before] hd
    by (simp split: PrimaryEndpointBehavior.splits)
qed

lemma primaryOf_cells: "primaryOf (s\<lparr>cells := c\<rparr>) proto = primaryOf s proto"
  by (simp add: primaryOf_def)

lemma cons_remove1_hd: "hd l = ref \<Longrightarrow> ref \<in> set l \<Longrightarrow> ref # remove1 ref l = l"
  by (cases l) auto

text \<open>
  C3, as the code has it: when the table holds a temporary entry for an address, with a
  reference count that is not zero, and the primary list of the protocol of the cell holds
  no cell twice, then adding the address as permanent returns that same cell, with one
  more reference, the kind \<open>permanent\<close> and the given \<open>deprecated\<close> and \<open>configType\<close>; the
  table is unchanged. In the primary list the cell is first for
  \<open>FirstPrimaryEndpoint\<close> and absent for \<open>NeverPrimaryEndpoint\<close>, the other cells
  keeping their order; for \<open>CanBePrimaryEndpoint\<close> a cell that is in the list stays where
  it is, and a cell that is not in the list is appended.
\<close>

theorem addAddressLocked_promotes:
  assumes "map_of (endpoints s) (Address (AddressWithPrefix protocolAddress)) = Some ref"
    and "getKind s ref = temporary"
    and "refs (cells s ref) \<noteq> 0"
    and "distinct (primaryOf s (protocol (cells s ref)))"
  shows "\<exists>s'. addAddressLocked d protocolAddress peb permanent cfg dep s = Inr (Inr ref, s') \<and>
     cells s' = (cells s)(ref := (cells s ref)
                   \<lparr>refs := refs (cells s ref) + 1, kind := permanent,
                    deprecated := dep, configType := cfg\<rparr>) \<and>
     endpoints s' = endpoints s \<and>
     primaryOf s' (protocol (cells s ref)) =
       (case peb of
          CanBePrimaryEndpoint \<Rightarrow>
            if ref \<in> set (primaryOf s (protocol (cells s ref)))
            then primaryOf s (protocol (cells s ref))
            else primaryOf s (protocol (cells s ref)) @ [ref]
        | FirstPrimaryEndpoint \<Rightarrow> ref # remove1 ref (primaryOf s (protocol (cells s ref)))
        | NeverPrimaryEndpoint \<Rightarrow> remove1 ref (primaryOf s (protocol (cells s ref))))"
  using assms
  by (auto simp: addAddressLocked.simps [of d protocolAddress peb permanent cfg dep s]
        tryIncRef_def setKind_def Let_def getKind_def promoteLoop_distinct
        insertPrimaryEndpointLocked_def cons_remove1_hd remove1_idem
        primaryOf_setPrimary cells_setPrimary endpoints_setPrimary primaryOf_cells
        split: PrimaryEndpointBehavior.splits)

theorem addAddressLocked_promotes_witness:
  "\<exists>s'. addAddressLocked exampleStack
          \<lparr>Protocol = IPv4ProtocolNumber,
           AddressWithPrefix = \<lparr>Address = addr_10_0_0_1, PrefixLen = 24\<rparr>\<rparr>
          NeverPrimaryEndpoint permanent slaac True (nicTwo temporary) = Inr (Inr 0, s') \<and>
        cells s' 0 = (cellFor IPv4ProtocolNumber addr_10_0_0_1 32 permanent True)
                       \<lparr>refs := 2, configType := slaac\<rparr> \<and>
        primaryOf s' IPv4ProtocolNumber = [1]"
  using addAddressLocked_promotes [of "nicTwo temporary"
      "\<lparr>Protocol = IPv4ProtocolNumber,
        AddressWithPrefix = \<lparr>Address = addr_10_0_0_1, PrefixLen = 24\<rparr>\<rparr>"
      0 exampleStack NeverPrimaryEndpoint slaac True]
  by (auto simp: nicTwo_def exampleNIC_def newNIC_def cellFor_def getKind_def primaryOf_def)

text \<open>
  The claim as the spec states it fails for \<open>CanBePrimaryEndpoint\<close>: the temporary cell
  of 10.0.0.1, first of two in the primary list, is promoted and stays first, where
  adding 10.0.0.1 to the table that holds only the other address puts the new cell last.
\<close>

theorem addAddressLocked_promotes_counterexample:
  "(\<exists>s'. addAddressLocked exampleStack
          \<lparr>Protocol = IPv4ProtocolNumber,
           AddressWithPrefix = \<lparr>Address = addr_10_0_0_1, PrefixLen = 32\<rparr>\<rparr>
          CanBePrimaryEndpoint permanent static False (nicTwo temporary) = Inr (Inr 0, s') \<and>
        primaryOf s' IPv4ProtocolNumber = [0, 1]) \<and>
   (\<exists>s'. addAddressLocked exampleStack
          \<lparr>Protocol = IPv4ProtocolNumber,
           AddressWithPrefix = \<lparr>Address = addr_10_0_0_1, PrefixLen = 32\<rparr>\<rparr>
          CanBePrimaryEndpoint permanent static False nicSecond = Inr (Inr 2, s') \<and>
        primaryOf s' IPv4ProtocolNumber = [1, 2])"
  by (simp add: addAddressLocked.simps tryIncRef_def setKind_def Let_def getKind_def
      promoteLoop_distinct insertPrimaryEndpointLocked_def
      nicTwo_def nicSecond_def exampleNIC_def newNIC_def cellFor_def primaryOf_def setPrimary_def
      exampleStack_def exampleIPv4_def IsV6UnicastAddress_def
      addr_10_0_0_1_def addr_10_0_0_2_def IPv4ProtocolNumber_def IPv6ProtocolNumber_def)

subsection \<open>Joining and leaving a group\<close>

lemma joins_nonzero: "0 < k \<Longrightarrow> k < 2 ^ 32 \<Longrightarrow> (of_nat k :: 32 word) \<noteq> 0"
  by (simp add: word_of_nat_eq_0_iff nat_dvd_not_less)

lemma joins_not_one: "1 < k \<Longrightarrow> k < 2 ^ 32 \<Longrightarrow> (of_nat k :: 32 word) \<noteq> 1"
proof
  assume a: "1 < k" "k < 2 ^ 32" "(of_nat k :: 32 word) = 1"
  then have "(of_nat k :: 32 word) = of_nat 1" by simp
  then have "take_bit 32 k = take_bit 32 (1::nat)"
    by (simp only: word_of_nat_eq_iff len_of_numeral_defs) simp
  with a show False by (simp add: take_bit_nat_eq_self)
qed

lemma joinGroupLocked_first:
  assumes "networkProtocols d proto = Some netProto"
    and "NewEndpointErr netProto \<lparr>Address = addr, PrefixLen = DefaultPrefixLen netProto\<rparr> = None"
    and "\<not> IsV6UnicastAddress addr"
    and "map_of (endpoints s) addr = None"
    and "mcastJoins s addr = 0"
  shows "\<exists>s'. joinGroupLocked d proto addr s = Inr (None, s') \<and>
           groupJoined addr (nextRef s) proto 1 s'"
  using assms
  by (simp add: joinGroupLocked.simps [of d proto addr s] addAddressLocked.simps Let_def
      insertPrimaryEndpointLocked_def groupJoined_def update_conv')

lemma joinGroupLocked_again:
  assumes "groupJoined addr r proto k s" and "0 < k" and "k < 2 ^ 32"
  shows "\<exists>s'. joinGroupLocked d proto addr s = Inr (None, s') \<and>
           groupJoined addr r proto (Suc k) s'"
  using assms joins_nonzero [of k]
  by (simp add: joinGroupLocked.simps [of d proto addr s] groupJoined_def)

lemma repeatOp_joinGroup:
  assumes "groupJoined addr r proto k s" and "0 < k" and "k + m \<le> 2 ^ 32"
  shows "\<exists>s'. repeatOp (joinGroup d proto addr) m s = Inr (None, s') \<and>
           groupJoined addr r proto (k + m) s'"
  using assms
proof (induction m arbitrary: k s)
  case 0
  then show ?case by simp
next
  case (Suc m)
  from Suc.prems have "k < 2 ^ 32" by simp
  with joinGroupLocked_again [OF Suc.prems(1,2)] obtain s1 where
    s1: "joinGroup d proto addr s = Inr (None, s1)" "groupJoined addr r proto (Suc k) s1"
    unfolding joinGroup_def by blast
  from Suc.IH [OF s1(2)] Suc.prems obtain s' where
    "repeatOp (joinGroup d proto addr) m s1 = Inr (None, s')"
    "groupJoined addr r proto (Suc k + m) s'"
    by auto
  with s1 show ?case by simp
qed

lemma leaveGroupLocked_step:
  assumes "groupJoined addr r proto (Suc k) s" and "0 < k" and "Suc k < 2 ^ 32"
  shows "\<exists>s'. leaveGroupLocked d addr s = Inr (None, s') \<and> groupJoined addr r proto k s'"
  using assms joins_nonzero [of "Suc k"] joins_not_one [of "Suc k"]
  by (simp add: leaveGroupLocked.simps [of d addr s] groupJoined_def)

lemma leaveGroupLocked_last:
  assumes "groupJoined addr r proto 1 s" and "\<not> IsV6UnicastAddress addr"
  shows "\<exists>s'. leaveGroupLocked d addr s = Inr (None, s') \<and> mcastJoins s' addr = 0 \<and>
           map_of (endpoints s') addr = None"
  using assms
  by (simp add: leaveGroupLocked.simps [of d addr s] removePermanentAddressLocked.simps [of d addr s]
      groupJoined_def getKind_def setKind_def decRefLocked_def removeEndpointLocked_def Let_def
      closeEndpoint_def setPrimary_def delete_conv split: option.splits)

lemma leaveGroupLocked_zero:
  "mcastJoins s addr = 0 \<Longrightarrow> leaveGroupLocked d addr s = Inr (Some ErrBadLocalAddress, s)"
  by (simp add: leaveGroupLocked.simps [of d addr s])

lemma repeatOp_leaveGroup:
  assumes "groupJoined addr r proto k s" and "0 < k" and "k < 2 ^ 32"
    and "\<not> IsV6UnicastAddress addr"
  shows "\<exists>s'. repeatOp (leaveGroup d addr) k s = Inr (None, s') \<and> mcastJoins s' addr = 0 \<and>
           map_of (endpoints s') addr = None"
  using assms
proof (induction k arbitrary: s)
  case 0
  then show ?case by simp
next
  case (Suc k)
  show ?case
  proof (cases "k = 0")
    case True
    with Suc.prems leaveGroupLocked_last [of addr r proto s d] show ?thesis
      by (auto simp: leaveGroup_def)
  next
    case False
    with leaveGroupLocked_step [OF Suc.prems(1)] Suc.prems obtain s1 where
      s1: "leaveGroup d addr s = Inr (None, s1)" "groupJoined addr r proto k s1"
      unfolding leaveGroup_def by blast
    from Suc.IH [OF s1(2)] False Suc.prems obtain s' where
      "repeatOp (leaveGroup d addr) k s1 = Inr (None, s')" "mcastJoins s' addr = 0"
      "map_of (endpoints s') addr = None"
      by auto
    with s1 show ?thesis by simp
  qed
qed

lemma repeatOp_Suc_ok: "f s = Inr (None, s1) \<Longrightarrow> repeatOp f (Suc n) s = repeatOp f n s1"
  by simp

lemma repeatOp_Suc_err: "f s = Inr (Some err, s1) \<Longrightarrow> repeatOp f (Suc n) s = Inr (Some err, s1)"
  by simp

text \<open>
  C8, as the code has it: on a stack that has the protocol and makes the endpoint, for a
  multicast address that the table does not hold and that is not joined, and for
  \<open>1 \<le> n < 2 ^ 32\<close>: \<open>n\<close> calls of \<open>joinGroup\<close> followed by \<open>n\<close> calls of \<open>leaveGroup\<close> all
  succeed, bring the join count back to zero and remove the entry from the table; one
  more \<open>leaveGroup\<close> returns \<open>ErrBadLocalAddress\<close> and leaves the interface as it is.
\<close>

theorem joinGroup_leaveGroup_roundtrip:
  assumes "networkProtocols d proto = Some netProto"
    and "NewEndpointErr netProto \<lparr>Address = addr, PrefixLen = DefaultPrefixLen netProto\<rparr> = None"
    and "\<not> IsV6UnicastAddress addr"
    and "map_of (endpoints s) addr = None"
    and "mcastJoins s addr = 0"
    and "1 \<le> n" and "n < 2 ^ 32"
  shows "\<exists>s1 s2. repeatOp (joinGroup d proto addr) n s = Inr (None, s1) \<and>
           repeatOp (leaveGroup d addr) n s1 = Inr (None, s2) \<and>
           mcastJoins s2 addr = 0 \<and> map_of (endpoints s2) addr = None \<and>
           leaveGroup d addr s2 = Inr (Some ErrBadLocalAddress, s2)"
proof -
  from assms(6) obtain m where n: "n = Suc m" by (cases n) auto
  from joinGroupLocked_first [OF assms(1-5)] obtain s0 where
    s0: "joinGroup d proto addr s = Inr (None, s0)" "groupJoined addr (nextRef s) proto 1 s0"
    unfolding joinGroup_def by blast
  from repeatOp_joinGroup [OF s0(2), of m d] assms(7) n obtain s1 where
    s1: "repeatOp (joinGroup d proto addr) m s0 = Inr (None, s1)"
      "groupJoined addr (nextRef s) proto n s1"
    by auto
  from repeatOp_leaveGroup [OF s1(2) _ assms(7,3), of d] assms(6) obtain s2 where
    s2: "repeatOp (leaveGroup d addr) n s1 = Inr (None, s2)" "mcastJoins s2 addr = 0"
      "map_of (endpoints s2) addr = None"
    by auto
  from s0 s1 have "repeatOp (joinGroup d proto addr) n s = Inr (None, s1)"
    by (simp add: n)
  with s2 leaveGroupLocked_zero [OF s2(2), of d] show ?thesis by (auto simp: leaveGroup_def)
qed

theorem joinGroup_leaveGroup_roundtrip_witness:
  "\<exists>s1 s2. repeatOp (joinGroup exampleStack IPv4ProtocolNumber addr_224_0_0_1) 3 exampleNIC =
             Inr (None, s1) \<and>
           repeatOp (leaveGroup exampleStack addr_224_0_0_1) 3 s1 = Inr (None, s2) \<and>
           mcastJoins s2 addr_224_0_0_1 = 0 \<and> map_of (endpoints s2) addr_224_0_0_1 = None \<and>
           leaveGroup exampleStack addr_224_0_0_1 s2 = Inr (Some ErrBadLocalAddress, s2)"
  using joinGroup_leaveGroup_roundtrip
    [of exampleStack IPv4ProtocolNumber exampleIPv4 addr_224_0_0_1 exampleNIC 3]
  by (simp add: exampleStack_def exampleIPv4_def exampleNIC_def newNIC_def
      IsV6UnicastAddress_def addr_224_0_0_1_def IPv6AddressSize_def)

text \<open>
  The claim as the spec states it, for every \<open>n \<ge> 1\<close>, fails at \<open>n = 2 ^ 32\<close>: the join
  count is an \<open>int32\<close>, and after that many calls of \<open>joinGroup\<close> it is zero again with
  the entry still in the table, so the first \<open>leaveGroup\<close> returns
  \<open>ErrBadLocalAddress\<close>.
\<close>

theorem joinGroup_leaveGroup_roundtrip_counterexample:
  "\<exists>s1. repeatOp (joinGroup exampleStack IPv4ProtocolNumber addr_224_0_0_1) (2 ^ 32) exampleNIC =
           Inr (None, s1) \<and>
         map_of (endpoints s1) addr_224_0_0_1 = Some 0 \<and>
         repeatOp (leaveGroup exampleStack addr_224_0_0_1) (2 ^ 32) s1 =
           Inr (Some ErrBadLocalAddress, s1)"
proof -
  have two: "(2::nat) ^ 32 = Suc (2 ^ 32 - 1)" by simp
  have "\<exists>s'. joinGroupLocked exampleStack IPv4ProtocolNumber addr_224_0_0_1 exampleNIC = Inr (None, s') \<and>
           groupJoined addr_224_0_0_1 (nextRef exampleNIC) IPv4ProtocolNumber 1 s'"
    by (rule joinGroupLocked_first [where netProto = exampleIPv4])
      (simp_all add: exampleStack_def exampleIPv4_def exampleNIC_def newNIC_def
        IsV6UnicastAddress_def addr_224_0_0_1_def IPv6AddressSize_def)
  then obtain s0 where
    s0: "joinGroup exampleStack IPv4ProtocolNumber addr_224_0_0_1 exampleNIC = Inr (None, s0)"
      "groupJoined addr_224_0_0_1 0 IPv4ProtocolNumber 1 s0"
    by (auto simp: exampleNIC_def newNIC_def joinGroup_def)
  from repeatOp_joinGroup [OF s0(2), of "2 ^ 32 - 1" exampleStack] obtain s1 where
    s1: "repeatOp (joinGroup exampleStack IPv4ProtocolNumber addr_224_0_0_1) (2 ^ 32 - 1) s0 =
           Inr (None, s1)"
      "groupJoined addr_224_0_0_1 0 IPv4ProtocolNumber (1 + (2 ^ 32 - 1)) s1"
    by auto
  from s1(2) have z: "mcastJoins s1 addr_224_0_0_1 = 0" and e: "map_of (endpoints s1) addr_224_0_0_1 = Some 0"
    by (simp_all add: groupJoined_def)
  have j: "repeatOp (joinGroup exampleStack IPv4ProtocolNumber addr_224_0_0_1) (2 ^ 32) exampleNIC =
           Inr (None, s1)"
    by (subst two)
      (simp only: repeatOp_Suc_ok
         [of "joinGroup exampleStack IPv4ProtocolNumber addr_224_0_0_1" exampleNIC s0, OF s0(1)]
         s1(1))
  have "leaveGroup exampleStack addr_224_0_0_1 s1 = Inr (Some ErrBadLocalAddress, s1)"
    by (simp add: leaveGroup_def leaveGroupLocked_zero [OF z])
  then have l: "repeatOp (leaveGroup exampleStack addr_224_0_0_1) (2 ^ 32) s1 =
           Inr (Some ErrBadLocalAddress, s1)"
    by (subst two)
      (rule repeatOp_Suc_err [of "leaveGroup exampleStack addr_224_0_0_1" s1])
  from j e l show ?thesis by blast
qed

subsection \<open>Selecting an IPv6 source address\<close>

lemma sortSlice_three:
  "sortSlice lt [a, b, c] =
     insertDown lt 2 (insertDown lt 1 [a, b, c])"
proof -
  have "[1..<length [a, b, c]] = [1, 2]" by (simp add: upt_rec)
  then show ?thesis by (simp only: sortSlice_def fold_simps comp_apply)
qed

lemma insertDown_one: "insertDown lt 1 xs = (if lt xs 1 0 then xs[0 := xs ! 1, 1 := xs ! 0] else xs)"
  using insertDown.simps(2) [of lt 0 xs] by simp

lemma insertDown_two:
  "insertDown lt 2 xs =
     (if lt xs 2 1 then insertDown lt 1 (xs[1 := xs ! 2, 2 := xs ! 1]) else xs)"
  using insertDown.simps(2) [of lt 1 xs] by (simp add: numeral_2_eq_2)

lemma candidateLess_rules:
  "(LocalAddress (ep (cells t (cRef (cs ! i)))) = ra \<longrightarrow> candidateLess t ra rsc cs i j) \<and>
   (LocalAddress (ep (cells t (cRef (cs ! i)))) \<noteq> ra \<and>
    LocalAddress (ep (cells t (cRef (cs ! j)))) = ra \<longrightarrow> \<not> candidateLess t ra rsc cs i j) \<and>
   (LocalAddress (ep (cells t (cRef (cs ! i)))) \<noteq> ra \<and>
    LocalAddress (ep (cells t (cRef (cs ! j)))) \<noteq> ra \<longrightarrow>
      (cScope (cs ! i) < cScope (cs ! j) \<longrightarrow>
         candidateLess t ra rsc cs i j = (rsc \<le> cScope (cs ! i))) \<and>
      (cScope (cs ! j) < cScope (cs ! i) \<longrightarrow>
         candidateLess t ra rsc cs i j = (cScope (cs ! j) < rsc)) \<and>
      (cScope (cs ! i) = cScope (cs ! j) \<and>
       deprecated (cells t (cRef (cs ! i))) \<noteq> deprecated (cells t (cRef (cs ! j))) \<longrightarrow>
         candidateLess t ra rsc cs i j = deprecated (cells t (cRef (cs ! j)))) \<and>
      (cScope (cs ! i) = cScope (cs ! j) \<and>
       deprecated (cells t (cRef (cs ! i))) = deprecated (cells t (cRef (cs ! j))) \<longrightarrow>
         candidateLess t ra rsc cs i j = (i < j)))"
  by (auto simp: candidateLess_def Let_def)

lemma ipv6_scenario_sorted:
  assumes l: "primaryOf s IPv6ProtocolNumber \<in>
        {[r1, r2, r3], [r1, r3, r2], [r2, r1, r3], [r2, r3, r1], [r3, r1, r2], [r3, r2, r1]}"
    and a: "LocalAddress (ep (cells s r1)) = addr_fe80_1"
      "LocalAddress (ep (cells s r2)) = addr_2001_db8 (CHR 0x02)"
      "LocalAddress (ep (cells s r3)) = addr_2001_db8 (CHR 0x03)"
    and dep: "\<not> deprecated (cells s r1)" "deprecated (cells s r2)" "\<not> deprecated (cells s r3)"
    and v: "isValidForOutgoing s r1" "isValidForOutgoing s r2" "isValidForOutgoing s r3"
    and sc: "ScopeForIPv6Address d addr_fe80_1 = Inr linkLocal"
      "ScopeForIPv6Address d (addr_2001_db8 (CHR 0x02)) = Inr global"
      "ScopeForIPv6Address d (addr_2001_db8 (CHR 0x03)) = Inr global"
    and lt: "linkLocal < global"
  shows "candidates d s (primaryOf s IPv6ProtocolNumber) \<noteq> Inl ab"
    and "\<And>cs. candidates d s (primaryOf s IPv6ProtocolNumber) = Inr cs \<Longrightarrow>
         sortSlice (candidateLess s (addr_2001_db8 (CHR 0x01)) global) cs =
           [\<lparr>cRef = r3, cScope = global\<rparr>, \<lparr>cRef = r2, cScope = global\<rparr>,
            \<lparr>cRef = r1, cScope = linkLocal\<rparr>]"
    and "\<And>cs. candidates d s (primaryOf s IPv6ProtocolNumber) = Inr cs \<Longrightarrow>
         sortSlice (candidateLess s (addr_2001_db8 (CHR 0x02)) global) cs =
           [\<lparr>cRef = r2, cScope = global\<rparr>, \<lparr>cRef = r3, cScope = global\<rparr>,
            \<lparr>cRef = r1, cScope = linkLocal\<rparr>]"
proof -
  have ne: "addr_fe80_1 \<noteq> addr_2001_db8 (CHR 0x01)"
    "addr_2001_db8 (CHR 0x02) \<noteq> addr_2001_db8 (CHR 0x01)"
    "addr_2001_db8 (CHR 0x03) \<noteq> addr_2001_db8 (CHR 0x01)"
    "addr_fe80_1 \<noteq> addr_2001_db8 (CHR 0x02)"
    "addr_2001_db8 (CHR 0x03) \<noteq> addr_2001_db8 (CHR 0x02)"
    by (simp_all add: addr_fe80_1_def addr_2001_db8_def)
  from l have cases: "primaryOf s IPv6ProtocolNumber = [r1, r2, r3] \<or>
      primaryOf s IPv6ProtocolNumber = [r1, r3, r2] \<or>
      primaryOf s IPv6ProtocolNumber = [r2, r1, r3] \<or>
      primaryOf s IPv6ProtocolNumber = [r2, r3, r1] \<or>
      primaryOf s IPv6ProtocolNumber = [r3, r1, r2] \<or>
      primaryOf s IPv6ProtocolNumber = [r3, r2, r1]"
    by simp
  show "candidates d s (primaryOf s IPv6ProtocolNumber) \<noteq> Inl ab"
    using cases a v sc by (elim disjE) simp_all
  show "sortSlice (candidateLess s (addr_2001_db8 (CHR 0x01)) global) cs =
           [\<lparr>cRef = r3, cScope = global\<rparr>, \<lparr>cRef = r2, cScope = global\<rparr>,
            \<lparr>cRef = r1, cScope = linkLocal\<rparr>]"
    if "candidates d s (primaryOf s IPv6ProtocolNumber) = Inr cs" for cs
    using cases that a dep v sc lt ne
    by (elim disjE)
      (auto simp: sortSlice_three insertDown_one insertDown_two candidateLess_def Let_def)
  show "sortSlice (candidateLess s (addr_2001_db8 (CHR 0x02)) global) cs =
           [\<lparr>cRef = r2, cScope = global\<rparr>, \<lparr>cRef = r3, cScope = global\<rparr>,
            \<lparr>cRef = r1, cScope = linkLocal\<rparr>]"
    if "candidates d s (primaryOf s IPv6ProtocolNumber) = Inr cs" for cs
    using cases that a dep v sc lt ne
    by (elim disjE)
      (auto simp: sortSlice_three insertDown_one insertDown_two candidateLess_def Let_def)
qed


text \<open>
  C5: the IPv6 primary list holds fe80::1, 2001:db8::2 (deprecated) and 2001:db8::3, in
  the order of the spec or in any other, each valid for outgoing packets; the scope of
  fe80::1 is smaller than the scope of the 2001:db8:: addresses, and the count of the
  cell of 2001:db8::3 is not zero. For the remote address 2001:db8::1 the comparator
  sorts the candidates into 2001:db8::3, 2001:db8::2, fe80::1, and the endpoint selected
  is the cell of 2001:db8::3, with one more reference. For the remote address
  2001:db8::2 rule 1 puts the deprecated 2001:db8::2 first, and it is selected when its
  count is not zero. The last conjuncts are the comparator itself, for any candidates:
  rule 1 (the remote address wins), rule 2 with its asymmetry (if \<open>Sa < Sb\<close> then \<open>i\<close>
  wins iff \<open>Sa \<ge> remoteScope\<close>; if \<open>Sb < Sa\<close> then \<open>i\<close> wins iff \<open>Sb < remoteScope\<close>),
  rule 3 (the candidate that is not deprecated wins), and otherwise the order of the
  list.
\<close>

theorem primaryEndpoint_ipv6_scenario:
  assumes "primaryOf s IPv6ProtocolNumber \<in>
        {[r1, r2, r3], [r1, r3, r2], [r2, r1, r3], [r2, r3, r1], [r3, r1, r2], [r3, r2, r1]}"
    and "LocalAddress (ep (cells s r1)) = addr_fe80_1"
    and "LocalAddress (ep (cells s r2)) = addr_2001_db8 (CHR 0x02)"
    and "LocalAddress (ep (cells s r3)) = addr_2001_db8 (CHR 0x03)"
    and "\<not> deprecated (cells s r1)" and "deprecated (cells s r2)"
    and "\<not> deprecated (cells s r3)"
    and "isValidForOutgoing s r1" and "isValidForOutgoing s r2" and "isValidForOutgoing s r3"
    and "refs (cells s r3) \<noteq> 0"
    and "ScopeForIPv6Address d addr_fe80_1 = Inr linkLocal"
    and "ScopeForIPv6Address d (addr_2001_db8 (CHR 0x01)) = Inr global"
    and "ScopeForIPv6Address d (addr_2001_db8 (CHR 0x02)) = Inr global"
    and "ScopeForIPv6Address d (addr_2001_db8 (CHR 0x03)) = Inr global"
    and "linkLocal < global"
  shows "primaryEndpoint d IPv6ProtocolNumber (addr_2001_db8 (CHR 0x01)) s =
           Inr (Some r3,
                s\<lparr>cells := (cells s)(r3 := (cells s r3)\<lparr>refs := refs (cells s r3) + 1\<rparr>)\<rparr>) \<and>
         (\<exists>cs. candidates d s (primaryOf s IPv6ProtocolNumber) = Inr cs \<and>
            sortSlice (candidateLess s (addr_2001_db8 (CHR 0x01)) global) cs =
              [\<lparr>cRef = r3, cScope = global\<rparr>, \<lparr>cRef = r2, cScope = global\<rparr>,
               \<lparr>cRef = r1, cScope = linkLocal\<rparr>] \<and>
            sortSlice (candidateLess s (addr_2001_db8 (CHR 0x02)) global) cs =
              [\<lparr>cRef = r2, cScope = global\<rparr>, \<lparr>cRef = r3, cScope = global\<rparr>,
               \<lparr>cRef = r1, cScope = linkLocal\<rparr>]) \<and>
         (refs (cells s r2) \<noteq> 0 \<longrightarrow>
            primaryEndpoint d IPv6ProtocolNumber (addr_2001_db8 (CHR 0x02)) s =
              Inr (Some r2,
                   s\<lparr>cells := (cells s)(r2 := (cells s r2)\<lparr>refs := refs (cells s r2) + 1\<rparr>)\<rparr>)) \<and>
         (LocalAddress (ep (cells t (cRef (cs' ! i)))) = ra \<longrightarrow> candidateLess t ra rsc cs' i j) \<and>
         (LocalAddress (ep (cells t (cRef (cs' ! i)))) \<noteq> ra \<and>
          LocalAddress (ep (cells t (cRef (cs' ! j)))) = ra \<longrightarrow> \<not> candidateLess t ra rsc cs' i j) \<and>
         (LocalAddress (ep (cells t (cRef (cs' ! i)))) \<noteq> ra \<and>
          LocalAddress (ep (cells t (cRef (cs' ! j)))) \<noteq> ra \<longrightarrow>
            (cScope (cs' ! i) < cScope (cs' ! j) \<longrightarrow>
               candidateLess t ra rsc cs' i j = (rsc \<le> cScope (cs' ! i))) \<and>
            (cScope (cs' ! j) < cScope (cs' ! i) \<longrightarrow>
               candidateLess t ra rsc cs' i j = (cScope (cs' ! j) < rsc)) \<and>
            (cScope (cs' ! i) = cScope (cs' ! j) \<and>
             deprecated (cells t (cRef (cs' ! i))) \<noteq> deprecated (cells t (cRef (cs' ! j))) \<longrightarrow>
               candidateLess t ra rsc cs' i j = deprecated (cells t (cRef (cs' ! j)))) \<and>
            (cScope (cs' ! i) = cScope (cs' ! j) \<and>
             deprecated (cells t (cRef (cs' ! i))) = deprecated (cells t (cRef (cs' ! j))) \<longrightarrow>
               candidateLess t ra rsc cs' i j = (i < j)))"
proof -
  note sel = ipv6_scenario_sorted [OF assms(1-10) assms(12) assms(14-16)]
  obtain cs where cs: "candidates d s (primaryOf s IPv6ProtocolNumber) = Inr cs"
    using sel(1) by (cases "candidates d s (primaryOf s IPv6ProtocolNumber)") auto
  note s1 = sel(2) [OF cs] and s2 = sel(3) [OF cs]
  have nonempty: "addr_2001_db8 b \<noteq> []" for b by (simp add: addr_2001_db8_def)
  have len: "length (primaryOf s IPv6ProtocolNumber) \<noteq> 0" using assms(1) by auto
  have p1: "primaryEndpoint d IPv6ProtocolNumber (addr_2001_db8 (CHR 0x01)) s =
           Inr (Some r3,
                s\<lparr>cells := (cells s)(r3 := (cells s r3)\<lparr>refs := refs (cells s r3) + 1\<rparr>)\<rparr>)"
    using assms(11,13) len
    by (simp add: primaryEndpoint_def primaryIPv6Endpoint_def cs s1 tryIncRef_def Let_def nonempty)
  have p2: "primaryEndpoint d IPv6ProtocolNumber (addr_2001_db8 (CHR 0x02)) s =
              Inr (Some r2,
                   s\<lparr>cells := (cells s)(r2 := (cells s r2)\<lparr>refs := refs (cells s r2) + 1\<rparr>)\<rparr>)"
    if "refs (cells s r2) \<noteq> 0"
    using that assms(14) len
    by (simp add: primaryEndpoint_def primaryIPv6Endpoint_def cs s2 tryIncRef_def Let_def nonempty)
  from p1 p2 cs s1 s2 candidateLess_rules [of t cs' i ra rsc j] show ?thesis by blast
qed

theorem primaryEndpoint_ipv6_scenario_witness:
  "primaryEndpoint exampleStack IPv6ProtocolNumber (addr_2001_db8 (CHR 0x01)) nicThreeV6 =
     Inr (Some 2,
          nicThreeV6\<lparr>cells := (cells nicThreeV6)
            (2 := (cellFor IPv6ProtocolNumber (addr_2001_db8 (CHR 0x03)) 64 permanent False)
                    \<lparr>refs := 2\<rparr>)\<rparr>) \<and>
   primaryEndpoint exampleStack IPv6ProtocolNumber (addr_2001_db8 (CHR 0x02)) nicThreeV6 =
     Inr (Some 1,
          nicThreeV6\<lparr>cells := (cells nicThreeV6)
            (1 := (cellFor IPv6ProtocolNumber (addr_2001_db8 (CHR 0x02)) 64 permanent True)
                    \<lparr>refs := 2\<rparr>)\<rparr>) \<and>
   primaryEndpoint exampleStack IPv6ProtocolNumber (addr_2001_db8 (CHR 0x01))
       (nicThreeV6\<lparr>primary := [(IPv6ProtocolNumber, [2, 1, 0])]\<rparr>) =
     Inr (Some 2,
          nicThreeV6\<lparr>primary := [(IPv6ProtocolNumber, [2, 1, 0])],
            cells := (cells nicThreeV6)
            (2 := (cellFor IPv6ProtocolNumber (addr_2001_db8 (CHR 0x03)) 64 permanent False)
                    \<lparr>refs := 2\<rparr>)\<rparr>)"
  using primaryEndpoint_ipv6_scenario [of nicThreeV6 0 1 2 exampleStack 0 2, THEN conjunct1]
    primaryEndpoint_ipv6_scenario [of nicThreeV6 0 1 2 exampleStack 0 2, THEN conjunct2, THEN conjunct2, THEN conjunct1]
    primaryEndpoint_ipv6_scenario [of "nicThreeV6\<lparr>primary := [(IPv6ProtocolNumber, [2, 1, 0])]\<rparr>" 0 1 2 exampleStack 0 2,
        THEN conjunct1]
  by (simp add: nicThreeV6_def exampleNIC_def newNIC_def cellFor_def primaryOf_def
      isValidForOutgoing_def isValidForOutgoingRLocked_def getKind_def
      exampleStack_def exampleScope_def IPv6AddressSize_def
      addr_fe80_1_def addr_2001_db8_def)

subsection \<open>Enabling the interface\<close>

lemma broadcast_not_unicast: "\<not> IsV6UnicastAddress IPv4Broadcast"
  by (simp add: IsV6UnicastAddress_def IPv4Broadcast_def IPv6AddressSize_def)

lemma allnodes_not_unicast: "\<not> IsV6UnicastAddress IPv6AllNodesMulticastAddress"
  by (simp add: IsV6UnicastAddress_def IPv6AllNodesMulticastAddress_def)

lemma allnodes_not_broadcast: "IPv6AllNodesMulticastAddress \<noteq> IPv4Broadcast"
  by (simp add: IPv6AllNodesMulticastAddress_def IPv4Broadcast_def)

lemma addAddressLocked_broadcast:
  assumes "networkProtocols d IPv4ProtocolNumber = Some netProto"
    and "NewEndpointErr netProto \<lparr>Address = IPv4Broadcast, PrefixLen = 32\<rparr> = None"
    and "map_of (endpoints s) IPv4Broadcast = None"
    and "nextRef s \<notin> set (primaryOf s IPv4ProtocolNumber)"
  shows "\<exists>s'. addAddressLocked d
            \<lparr>Protocol = IPv4ProtocolNumber,
             AddressWithPrefix = \<lparr>Address = IPv4Broadcast, PrefixLen = 8 * IPv4AddressSize\<rparr>\<rparr>
            NeverPrimaryEndpoint permanent static False s = Inr (Inr (nextRef s), s') \<and>
          broadcastEntry (nextRef s) s'"
  using assms
  by (simp add: addAddressLocked.simps Let_def broadcast_not_unicast IPv4AddressSize_def
      insertPrimaryEndpointLocked_def broadcastEntry_def update_conv' primaryOf_def)

lemma promoteLoop_never:
  "promoteLoop ref NeverPrimaryEndpoint arr i s = (b, s') \<Longrightarrow>
   s' = s \<or> (\<exists>l. set l \<subseteq> set arr \<and> s' = setPrimary (protocol (cells s ref)) l s)"
proof (induction "length arr - i" arbitrary: i)
  case 0
  then show ?case by (simp add: promoteLoop.simps [of ref _ arr i s])
next
  case (Suc n)
  then have lt: "i < length arr" by simp
  show ?case
  proof (cases "arr ! i = ref")
    case True
    have "set (take i arr @ drop (Suc i) arr) \<subseteq> set arr"
      by (auto dest: in_set_takeD in_set_dropD)
    moreover have "s' = setPrimary (protocol (cells s ref)) (take i arr @ drop (Suc i) arr) s"
      using True lt Suc.prems by (simp add: promoteLoop.simps [of ref _ arr i s])
    ultimately show ?thesis by blast
  next
    case False
    with lt Suc.prems have "promoteLoop ref NeverPrimaryEndpoint arr (Suc i) s = (b, s')"
      by (simp add: promoteLoop.simps [of ref _ arr i s])
    moreover from Suc.hyps(2) have "n = length arr - Suc i" by simp
    ultimately show ?thesis using Suc.hyps(1) by blast
  qed
qed


lemma broadcastEntry_setPrimary:
  assumes "broadcastEntry r s" and "set l \<subseteq> set (primaryOf s proto)"
  shows "broadcastEntry r (setPrimary proto l s)"
  using assms by (auto simp: broadcastEntry_def setPrimary_def primaryOf_def update_conv')

lemma removeEndpointLocked_keeps_broadcast:
  assumes "broadcastEntry r s" and "ref \<noteq> r" and "getKind s ref \<noteq> permanent"
  shows "\<exists>s'. removeEndpointLocked ref s = Inr s' \<and> broadcastEntry r s'"
proof (cases "map_of (endpoints s) (LocalAddress (ep (cells s ref))) = Some ref")
  case False
  with assms show ?thesis by (simp add: removeEndpointLocked_def)
next
  case True
  with assms have ne: "LocalAddress (ep (cells s ref)) \<noteq> IPv4Broadcast"
    by (auto simp: broadcastEntry_def)
  define s1 where "s1 = s\<lparr>endpoints := AList.delete (LocalAddress (ep (cells s ref))) (endpoints s)\<rparr>"
  have b1: "broadcastEntry r s1"
    using assms(1) ne by (auto simp: broadcastEntry_def s1_def delete_conv primaryOf_def)
  define s2 where "s2 = (case removeFirst ref (primaryOf s1 (protocol (cells s1 ref))) of
                    None \<Rightarrow> s1
                  | Some l \<Rightarrow> setPrimary (protocol (cells s1 ref)) l s1)"
  have sub: "removeFirst x xs = Some ys \<Longrightarrow> set ys \<subseteq> set xs" for x :: ptr and xs ys
    by (induction xs arbitrary: ys) (auto split: if_splits option.splits)
  have b2: "broadcastEntry r s2"
    using b1 sub by (auto simp: s2_def broadcastEntry_setPrimary split: option.splits)
  have "broadcastEntry r (closeEndpoint ref s2)"
    using b2 assms(2) by (auto simp: broadcastEntry_def closeEndpoint_def primaryOf_def)
  moreover have "removeEndpointLocked ref s = Inr (closeEndpoint ref s2)"
    unfolding s2_def s1_def using True assms(3) by (simp add: removeEndpointLocked_def Let_def)
  ultimately show ?thesis by blast
qed

lemma addAddressLocked_new_keeps_broadcast:
  assumes "broadcastEntry r s" and "\<not> IsV6UnicastAddress a" and "a \<noteq> IPv4Broadcast"
    and "map_of (endpoints s) a = None"
  shows "\<exists>res s'. addAddressLocked d \<lparr>Protocol = proto, AddressWithPrefix = \<lparr>Address = a, PrefixLen = plen\<rparr>\<rparr>
            NeverPrimaryEndpoint permanent static False s = Inr (res, s') \<and> broadcastEntry r s'"
  using assms
  by (auto simp: addAddressLocked.simps [of d _ _ _ _ _ s] Let_def
      insertPrimaryEndpointLocked_def broadcastEntry_def update_conv' primaryOf_def
      split: option.splits)


lemma addAddressLocked_keeps_broadcast:
  assumes b: "broadcastEntry r s" and nu: "\<not> IsV6UnicastAddress a" and ne: "a \<noteq> IPv4Broadcast"
  shows "\<exists>res s'. addAddressLocked d
            \<lparr>Protocol = proto, AddressWithPrefix = \<lparr>Address = a, PrefixLen = plen\<rparr>\<rparr>
            NeverPrimaryEndpoint permanent static False s = Inr (res, s') \<and> broadcastEntry r s'"
proof (cases "map_of (endpoints s) a")
  case None
  with addAddressLocked_new_keeps_broadcast [OF b nu ne] show ?thesis by blast
next
  case (Some ref)
  note unfold = addAddressLocked.simps
    [of d "\<lparr>Protocol = proto, AddressWithPrefix = \<lparr>Address = a, PrefixLen = plen\<rparr>\<rparr>"
        NeverPrimaryEndpoint permanent static False s]
  show ?thesis
  proof (cases "getKind s ref = permanent \<or> getKind s ref = permanentTentative")
    case True
    with Some b show ?thesis by (auto simp: unfold)
  next
    case False
    then have k: "getKind s ref = permanentExpired \<or> getKind s ref = temporary"
      by (cases "getKind s ref") auto
    with b have rr: "ref \<noteq> r" by (auto simp: broadcastEntry_def getKind_def)
    show ?thesis
    proof (cases "refs (cells s ref) = 0")
      case True
      from removeEndpointLocked_keeps_broadcast [OF b rr] False obtain s2 where
        s2: "removeEndpointLocked ref s = Inr s2" "broadcastEntry r s2"
        by auto
      from s2(2) nu ne Some True k s2(1) show ?thesis
        by (auto simp: unfold tryIncRef_def Let_def
            insertPrimaryEndpointLocked_def broadcastEntry_def update_conv' primaryOf_def
            split: option.splits)
    next
      case nz: False
      define s3 where "s3 = s\<lparr>cells := (cells s)(ref := (cells s ref)
                   \<lparr>refs := refs (cells s ref) + 1, kind := permanent,
                    deprecated := False, configType := static\<rparr>)\<rparr>"
      have b3: "broadcastEntry r s3"
        using b rr by (auto simp: broadcastEntry_def s3_def primaryOf_def)
      obtain bb s4 where
        pl: "promoteLoop ref NeverPrimaryEndpoint (primaryOf s3 (protocol (cells s3 ref))) 0 s3 =
               (bb, s4)"
        by fastforce
      from promoteLoop_never [OF pl] b3 have b4: "broadcastEntry r s4"
        by (auto simp: broadcastEntry_setPrimary)
      have "addAddressLocked d
            \<lparr>Protocol = proto, AddressWithPrefix = \<lparr>Address = a, PrefixLen = plen\<rparr>\<rparr>
            NeverPrimaryEndpoint permanent static False s = Inr (Inr ref, s4)"
        using Some k nz pl [unfolded s3_def]
        by (cases bb)
          (auto simp: unfold tryIncRef_def setKind_def Let_def getKind_def
            insertPrimaryEndpointLocked_def)
      with b4 show ?thesis by blast
    qed
  qed
qed

lemma joinGroupLocked_keeps_broadcast:
  assumes "broadcastEntry r s" and "\<not> IsV6UnicastAddress a" and "a \<noteq> IPv4Broadcast"
  shows "\<exists>res s'. joinGroupLocked d proto a s = Inr (res, s') \<and> broadcastEntry r s'"
proof (cases "mcastJoins s a = 0")
  case False
  with assms(1) show ?thesis
    by (auto simp: joinGroupLocked.simps [of d proto a s] broadcastEntry_def primaryOf_def)
next
  case True
  show ?thesis
  proof (cases "networkProtocols d proto")
    case None
    with True assms(1) show ?thesis by (simp add: joinGroupLocked.simps [of d proto a s])
  next
    case (Some netProto)
    from addAddressLocked_keeps_broadcast [OF assms, of d proto "DefaultPrefixLen netProto"] obtain res s1 where
      a: "addAddressLocked d
            \<lparr>Protocol = proto, AddressWithPrefix = \<lparr>Address = a, PrefixLen = DefaultPrefixLen netProto\<rparr>\<rparr>
            NeverPrimaryEndpoint permanent static False s = Inr (res, s1)" "broadcastEntry r s1"
      by blast
    have "broadcastEntry r (s1\<lparr>mcastJoins := m\<rparr>)" for m
      using a(2) by (auto simp: broadcastEntry_def primaryOf_def)
    with a True Some show ?thesis
      by (cases res) (auto simp: joinGroupLocked.simps [of d proto a s])
  qed
qed

lemma enableDADLoop_keeps_broadcast:
  assumes dad: "\<And>a r' t. broadcastEntry r t \<Longrightarrow>
          \<exists>res t'. startDuplicateAddressDetection d a r' t = Inr (res, t') \<and> broadcastEntry r t'"
    and "broadcastEntry r s"
  shows "\<exists>res s'. enableDADLoop d rs s = Inr (res, s') \<and> broadcastEntry r s'"
  using assms(2)
proof (induction rs arbitrary: s)
  case Nil
  then show ?case by simp
next
  case (Cons r' rs)
  show ?case
  proof (cases "(getKind s r' \<noteq> permanent \<and> getKind s r' \<noteq> permanentTentative) \<or>
                \<not> IsV6UnicastAddress (LocalAddress (ep (cells s r')))")
    case True
    with Cons show ?thesis by (auto simp: Let_def)
  next
    case False
    with Cons.prems broadcast_not_unicast have "r' \<noteq> r" by (auto simp: broadcastEntry_def)
    with Cons.prems have "broadcastEntry r (setKind r' permanentTentative s)"
      by (auto simp: broadcastEntry_def setKind_def primaryOf_def)
    from dad [OF this] obtain res s1 where
      s1: "startDuplicateAddressDetection d (LocalAddress (ep (cells s r'))) r'
             (setKind r' permanentTentative s) = Inr (res, s1)" "broadcastEntry r s1"
      by blast
    show ?thesis
    proof (cases res)
      case None
      with Cons.IH [OF s1(2)] s1 False show ?thesis by (auto simp: Let_def)
    next
      case (Some err)
      with s1 False show ?thesis by (auto simp: Let_def)
    qed
  qed
qed

text \<open>
  C1, as the code has it: \<open>enable\<close> on a disabled interface, on a stack that has IPv4 and
  makes the endpoint, where the table does not hold 255.255.255.255 and the cell about to
  be allocated is not in the IPv4 primary list. The NDP operations that \<open>enable\<close> calls
  when IPv6 is registered are parameters; they are taken to return and to keep the
  broadcast entry. Then \<open>enable\<close> returns, with or without an error of a later step, and
  the table holds 255.255.255.255 as a permanent, static entry that is in no primary
  list and whose prefix length is \<open>8 * IPv4AddressSize = 32\<close>.
\<close>

theorem enable_adds_broadcast:
  assumes "\<not> enabled s"
    and "networkProtocols d IPv4ProtocolNumber = Some netProto"
    and "NewEndpointErr netProto \<lparr>Address = IPv4Broadcast, PrefixLen = 32\<rparr> = None"
    and "map_of (endpoints s) IPv4Broadcast = None"
    and "nextRef s \<notin> set (primaryOf s IPv4ProtocolNumber)"
    and dad: "\<And>a r' t. broadcastEntry (nextRef s) t \<Longrightarrow>
          \<exists>res t'. startDuplicateAddressDetection d a r' t = Inr (res, t') \<and>
                    broadcastEntry (nextRef s) t'"
    and slaac: "\<And>t. broadcastEntry (nextRef s) t \<Longrightarrow>
          \<exists>t'. doSLAAC d t = Inr t' \<and> broadcastEntry (nextRef s) t'"
    and rs: "\<And>t. broadcastEntry (nextRef s) t \<Longrightarrow>
          \<exists>t'. startSolicitingRouters d t = Inr t' \<and> broadcastEntry (nextRef s) t'"
  shows "\<exists>res s'. enable d s = Inr (res, s') \<and> broadcastEntry (nextRef s) s'"
proof -
  define s1 where "s1 = s\<lparr>enabled := True, attached := True\<rparr>"
  have n1: "nextRef s1 = nextRef s" by (simp add: s1_def)
  have "\<exists>s'. addAddressLocked d
            \<lparr>Protocol = IPv4ProtocolNumber,
             AddressWithPrefix = \<lparr>Address = IPv4Broadcast, PrefixLen = 8 * IPv4AddressSize\<rparr>\<rparr>
            NeverPrimaryEndpoint permanent static False s1 = Inr (Inr (nextRef s1), s') \<and>
          broadcastEntry (nextRef s1) s'"
    by (rule addAddressLocked_broadcast [OF assms(2,3)]) (use assms(4,5) in \<open>simp_all add: s1_def primaryOf_def\<close>)
  then obtain s2 where
    s2: "addAddressLocked d
            \<lparr>Protocol = IPv4ProtocolNumber,
             AddressWithPrefix = \<lparr>Address = IPv4Broadcast, PrefixLen = 8 * IPv4AddressSize\<rparr>\<rparr>
            NeverPrimaryEndpoint permanent static False s1 = Inr (Inr (nextRef s), s2)"
      "broadcastEntry (nextRef s) s2"
    using n1 by auto
  have e1: "enable d s =
      (case networkProtocols d IPv6ProtocolNumber of
               None \<Rightarrow> Inr (None, s2)
             | Some netProto \<Rightarrow>
                 (case enableDADLoop d (map snd (endpoints s2)) s2 of
                    Inl a \<Rightarrow> Inl a
                  | Inr (Some err, s3) \<Rightarrow> Inr (Some err, s3)
                  | Inr (None, s3) \<Rightarrow>
                      (case joinGroupLocked d IPv6ProtocolNumber IPv6AllNodesMulticastAddress s3 of
                         Inl a \<Rightarrow> Inl a
                       | Inr (Some err, s4) \<Rightarrow> Inr (Some err, s4)
                       | Inr (None, s4) \<Rightarrow>
                           (case (if autoGenIPv6LinkLocal d \<and> \<not> isLoopback d
                                  then doSLAAC d s4 else Inr s4) of
                              Inl a \<Rightarrow> Inl a
                            | Inr s5 \<Rightarrow>
                                (case (if \<not> forwarding d
                                       then startSolicitingRouters d s5 else Inr s5) of
                                   Inl a \<Rightarrow> Inl a
                                 | Inr s6 \<Rightarrow> Inr (None, s6))))))"
    using assms(1,2) s2(1) unfolding s1_def by (simp add: enable_def Let_def)
  show ?thesis
  proof (cases "networkProtocols d IPv6ProtocolNumber")
    case None
    with e1 s2(2) show ?thesis by auto
  next
    case (Some np6)
    from enableDADLoop_keeps_broadcast [of "nextRef s" d s2 "map snd (endpoints s2)"] dad s2(2)
    obtain res3 s3 where
      s3: "enableDADLoop d (map snd (endpoints s2)) s2 = Inr (res3, s3)"
        "broadcastEntry (nextRef s) s3"
      by blast
    show ?thesis
    proof (cases res3)
      case (Some err)
      with e1 s3 \<open>networkProtocols d IPv6ProtocolNumber = Some np6\<close> show ?thesis by auto
    next
      case None
      from joinGroupLocked_keeps_broadcast [OF s3(2) allnodes_not_unicast allnodes_not_broadcast,
          of d IPv6ProtocolNumber]
      obtain res4 s4 where
        s4: "joinGroupLocked d IPv6ProtocolNumber IPv6AllNodesMulticastAddress s3 = Inr (res4, s4)"
          "broadcastEntry (nextRef s) s4"
        by blast
      show ?thesis
      proof (cases res4)
        case (Some err)
        with e1 s3 s4 None \<open>networkProtocols d IPv6ProtocolNumber = Some np6\<close>
        show ?thesis by auto
      next
        case n4: None
        from slaac [OF s4(2)] s4(2) obtain s5 where
          s5: "(if autoGenIPv6LinkLocal d \<and> \<not> isLoopback d then doSLAAC d s4 else Inr s4) = Inr s5"
            "broadcastEntry (nextRef s) s5"
          by (cases "autoGenIPv6LinkLocal d \<and> \<not> isLoopback d") auto
        from rs [OF s5(2)] s5(2) obtain s6 where
          s6: "(if \<not> forwarding d then startSolicitingRouters d s5 else Inr s5) = Inr s6"
            "broadcastEntry (nextRef s) s6"
          by (cases "forwarding d") auto
        from e1 s3 s4 None n4 s5 s6 \<open>networkProtocols d IPv6ProtocolNumber = Some np6\<close>
        show ?thesis by (auto simp del: if_split)
      qed
    qed
  qed
qed


theorem enable_adds_broadcast_witness:
  "\<exists>res s'. enable exampleStack exampleNIC = Inr (res, s') \<and> broadcastEntry 0 s'"
proof -
  have "\<exists>res s'. enable exampleStack exampleNIC = Inr (res, s') \<and>
          broadcastEntry (nextRef exampleNIC) s'"
    by (rule enable_adds_broadcast [where netProto = exampleIPv4])
      (simp_all add: exampleStack_def exampleIPv4_def exampleNIC_def newNIC_def primaryOf_def)
  then show ?thesis by (simp add: exampleNIC_def newNIC_def)
qed

text \<open>
  The claim as the spec states it, a prefix length of 8, fails: on the example stack
  \<open>enable\<close> leaves 255.255.255.255 in the table with prefix length 32, and \<open>AllAddresses\<close>
  reports it so, next to the all-nodes group.
\<close>

theorem enable_adds_broadcast_counterexample:
  "\<exists>s'. enable exampleStack exampleNIC = Inr (None, s') \<and>
     map_of (endpoints s') IPv4Broadcast = Some 0 \<and>
     kind (cells s' 0) = permanent \<and>
     epPrefixLen (ep (cells s' 0)) = 32 \<and>
     epPrefixLen (ep (cells s' 0)) \<noteq> 8 \<and>
     AllAddresses s' =
       [\<lparr>Protocol = IPv4ProtocolNumber,
         AddressWithPrefix = \<lparr>Address = IPv4Broadcast, PrefixLen = 32\<rparr>\<rparr>,
        \<lparr>Protocol = IPv6ProtocolNumber,
         AddressWithPrefix = \<lparr>Address = IPv6AllNodesMulticastAddress, PrefixLen = 128\<rparr>\<rparr>]"
  by (simp add: enable_def Let_def addAddressLocked.simps joinGroupLocked.simps
      exampleStack_def exampleIPv4_def exampleIPv6_def exampleNIC_def newNIC_def
      insertPrimaryEndpointLocked_def IsV6UnicastAddress_def IPv6AddressSize_def
      IPv4AddressSize_def IPv4Broadcast_def IPv6AllNodesMulticastAddress_def
      IPv4ProtocolNumber_def IPv6ProtocolNumber_def getKind_def isLoopback_def
      AllAddresses_def)

end
